theory Spec2Isabelle
  imports Main "HOL-Library.Sublist"
begin

section \<open>Python values used by the drivers\<close>

text \<open>
  Python strings are modelled as \<open>string\<close> (lists of characters).  The substring test
  \<^verbatim>\<open>c in s\<close> of Python is \<^const>\<open>sublist\<close> \<open>c s\<close> of the library
  (\<open>\<exists>ps ss. s = ps @ c @ ss\<close>), which the code equations of the library evaluate.
\<close>

text \<open>
  \<^verbatim>\<open>s.replace(old, new)\<close>: one scan from the left, replacing each occurrence that does
  not overlap an earlier one; the scan resumes behind the occurrence and never looks at
  the text it has produced.  With an empty \<open>old\<close>, Python puts \<open>new\<close> before every
  character and at the end.
\<close>

function replace :: "string \<Rightarrow> string \<Rightarrow> string \<Rightarrow> string" where
  "replace [] old new = (if old = [] then new else [])"
| "replace (c # s) old new =
     (if old = [] then new @ c # replace s old new
      else if prefix old (c # s) then new @ replace (drop (length old) (c # s)) old new
      else c # replace s old new)"
  by pat_completeness auto
termination
  by (relation "measure (\<lambda>(s, old, new). length s)") (auto simp: neq_Nil_conv)

text \<open>The backslash, carriage return and line feed characters.\<close>

definition backslash :: char where
  "backslash = CHR 0x5C"

definition CR :: char where
  "CR = CHR 0x0D"

definition LF :: char where
  "LF = CHR 0x0A"

text \<open>
  \<^verbatim>\<open>re.escape\<close> of the standard library (Python 3.7 and later): every character of
  \<^verbatim>\<open>()[]{}?*+-|^$\.&~# \t\n\r\v\f\<close> gets a backslash in front, every other
  character is kept.
\<close>

definition special_chars :: "char list" where
  "special_chars =
     ''()[]{}?*+-|^$'' @ [backslash] @ ''.&~# '' @ [CHR 0x09, LF, CR, CHR 0x0B, CHR 0x0C]"

definition re_escape :: "string \<Rightarrow> string" where
  "re_escape p = concat (map (\<lambda>c. if c \<in> set special_chars then [backslash, c] else [c]) p)"

text \<open>The flag constants of the \<^verbatim>\<open>re\<close> module.\<close>

definition re_IGNORECASE :: int where
  "re_IGNORECASE = 2"

definition re_DOTALL :: int where
  "re_DOTALL = 16"

text \<open>A keyword argument with a default value: \<open>None\<close> when the caller leaves it out.\<close>

definition default_to :: "'a \<Rightarrow> 'a option \<Rightarrow> 'a" where
  "default_to d arg = (case arg of None \<Rightarrow> d | Some v \<Rightarrow> v)"

text \<open>Values that can be handed over as \<^verbatim>\<open>**kwargs\<close>.\<close>

datatype pyval = PyNone | PyStr string | PyInt int | PyBool bool

section \<open>Exceptions, the channel and the base classes\<close>

text \<open>
  The exceptions the two drivers raise themselves, and \<open>Raised\<close> for any exception
  (named by its class) that comes out of the base classes.
\<close>

datatype exn = NotImplementedError | AssertionError | ValueError string | Raised string

text \<open>
  \<^verbatim>\<open>send_command\<close> and \<^verbatim>\<open>send_command_timing\<close> return a \<^verbatim>\<open>str\<close>, or a list
  or dictionary of parsed data; the drivers only tell the two apart
  (\<^verbatim>\<open>assert isinstance(new_data, str)\<close>).
\<close>

datatype cmd_output = Str string | Structured

text \<open>
  What a driver method does to its connection is recorded as a list of events: every
  call of a method of the base classes, with its arguments and with what it returned
  or raised.
\<close>

datatype event =
    Write_channel string "exn + unit"
  | Read_until_pattern string "exn + string"
  | Send_command_timing string bool bool "exn + cmd_output"
  | Send_command string int "exn + cmd_output"
  | Super_enable string string "string option" int "exn + string"
  | Super_check_config_mode string string "exn + bool"
  | Super_config_mode string string int "exn + string"
  | Super_save_config string bool string "exn + string"

text \<open>
  A connection object: the attributes the drivers read (\<^verbatim>\<open>self.RETURN\<close>,
  \<^verbatim>\<open>self.base_prompt\<close>), the events so far, and the state \<open>dev\<close> of everything
  behind the base classes (the channel and the device), of any type.
\<close>

record 'd session =
  RETURN :: string
  base_prompt :: string
  trace :: "event list"
  dev :: 'd

text \<open>
  The methods of \<^verbatim>\<open>BaseConnection\<close>, \<^verbatim>\<open>CiscoSSHConnection\<close> and
  \<^verbatim>\<open>BaseFileTransfer\<close> that the drivers call are not part of the sources at hand.
  They are parameters: any functions on the state behind the base classes, each
  returning a value or an exception, and the new state.  None of them assigns
  \<^verbatim>\<open>self.RETURN\<close> or \<^verbatim>\<open>self.base_prompt\<close> while a driver method runs; the
  trace is kept by the model, and they do not see it.
\<close>

record 'd netmiko =
  impl_write_channel :: "string \<Rightarrow> 'd \<Rightarrow> (exn + unit) \<times> 'd"
  impl_read_until_pattern :: "string \<Rightarrow> 'd \<Rightarrow> (exn + string) \<times> 'd"
  impl_send_command_timing :: "string \<Rightarrow> bool \<Rightarrow> bool \<Rightarrow> 'd \<Rightarrow> (exn + cmd_output) \<times> 'd"
  impl_send_command :: "string \<Rightarrow> int \<Rightarrow> 'd \<Rightarrow> (exn + cmd_output) \<times> 'd"
  impl_enable :: "string \<Rightarrow> string \<Rightarrow> string option \<Rightarrow> int \<Rightarrow> 'd \<Rightarrow> (exn + string) \<times> 'd"
  impl_check_config_mode :: "string \<Rightarrow> string \<Rightarrow> 'd \<Rightarrow> (exn + bool) \<times> 'd"
  impl_config_mode :: "string \<Rightarrow> string \<Rightarrow> int \<Rightarrow> 'd \<Rightarrow> (exn + string) \<times> 'd"
  impl_save_config :: "string \<Rightarrow> bool \<Rightarrow> string \<Rightarrow> 'd \<Rightarrow> (exn + string) \<times> 'd"
  impl_process_md5 :: "string \<Rightarrow> exn + string"

text \<open>Sequencing of statements: an exception ends the method, with the state reached.\<close>

definition return_val :: "'a \<Rightarrow> 's \<Rightarrow> (exn + 'a) \<times> 's" where
  "return_val a s = (Inr a, s)"

definition raise_exn :: "exn \<Rightarrow> 's \<Rightarrow> (exn + 'a) \<times> 's" where
  "raise_exn e s = (Inl e, s)"

definition bind_exn ::
  "('s \<Rightarrow> (exn + 'a) \<times> 's) \<Rightarrow> ('a \<Rightarrow> 's \<Rightarrow> (exn + 'b) \<times> 's) \<Rightarrow> 's \<Rightarrow> (exn + 'b) \<times> 's" where
  "bind_exn m f s = (case m s of (Inl e, s') \<Rightarrow> (Inl e, s') | (Inr a, s') \<Rightarrow> f a s')"

text \<open>A call into the base classes: run it on \<open>dev\<close> and record the event.\<close>

definition invoke ::
  "('d \<Rightarrow> (exn + 'a) \<times> 'd) \<Rightarrow> (exn + 'a \<Rightarrow> event) \<Rightarrow> 'd session \<Rightarrow> (exn + 'a) \<times> 'd session" where
  "invoke f ev s = (case f (dev s) of (r, d) \<Rightarrow> (r, s\<lparr>trace := trace s @ [ev r], dev := d\<rparr>))"

definition write_channel :: "'d netmiko \<Rightarrow> string \<Rightarrow> 'd session \<Rightarrow> (exn + unit) \<times> 'd session" where
  "write_channel n out_data = invoke (impl_write_channel n out_data) (Write_channel out_data)"

definition read_until_pattern :: "'d netmiko \<Rightarrow> string \<Rightarrow> 'd session \<Rightarrow> (exn + string) \<times> 'd session" where
  "read_until_pattern n pattern = invoke (impl_read_until_pattern n pattern) (Read_until_pattern pattern)"

definition send_command_timing ::
  "'d netmiko \<Rightarrow> string \<Rightarrow> bool \<Rightarrow> bool \<Rightarrow> 'd session \<Rightarrow> (exn + cmd_output) \<times> 'd session" where
  "send_command_timing n command_string strip_command strip_prompt =
     invoke (impl_send_command_timing n command_string strip_command strip_prompt)
       (Send_command_timing command_string strip_command strip_prompt)"

definition send_command ::
  "'d netmiko \<Rightarrow> string \<Rightarrow> int \<Rightarrow> 'd session \<Rightarrow> (exn + cmd_output) \<times> 'd session" where
  "send_command n command_string read_timeout =
     invoke (impl_send_command n command_string read_timeout)
       (Send_command command_string read_timeout)"

definition super_enable ::
  "'d netmiko \<Rightarrow> string \<Rightarrow> string \<Rightarrow> string option \<Rightarrow> int \<Rightarrow> 'd session \<Rightarrow> (exn + string) \<times> 'd session" where
  "super_enable n cmd pattern enable_pattern re_flags =
     invoke (impl_enable n cmd pattern enable_pattern re_flags)
       (Super_enable cmd pattern enable_pattern re_flags)"

definition super_check_config_mode ::
  "'d netmiko \<Rightarrow> string \<Rightarrow> string \<Rightarrow> 'd session \<Rightarrow> (exn + bool) \<times> 'd session" where
  "super_check_config_mode n check_string pattern =
     invoke (impl_check_config_mode n check_string pattern)
       (Super_check_config_mode check_string pattern)"

definition super_config_mode ::
  "'d netmiko \<Rightarrow> string \<Rightarrow> string \<Rightarrow> int \<Rightarrow> 'd session \<Rightarrow> (exn + string) \<times> 'd session" where
  "super_config_mode n config_command pattern re_flags =
     invoke (impl_config_mode n config_command pattern re_flags)
       (Super_config_mode config_command pattern re_flags)"

definition super_save_config ::
  "'d netmiko \<Rightarrow> string \<Rightarrow> bool \<Rightarrow> string \<Rightarrow> 'd session \<Rightarrow> (exn + string) \<times> 'd session" where
  "super_save_config n cmd confirm confirm_response =
     invoke (impl_save_config n cmd confirm confirm_response)
       (Super_save_config cmd confirm confirm_response)"

section \<open>arista.py\<close>

subsection \<open>AristaBase\<close>

text \<open>
  \<^verbatim>\<open>check_config_mode(self, check_string=")#", pattern=r"[>\#]")\<close>: write
  \<^verbatim>\<open>self.RETURN\<close>, read until the pattern, delete \<^verbatim>\<open>(s1)\<close>, then \<^verbatim>\<open>(s2)\<close>, and
  test \<^verbatim>\<open>check_string in output\<close>.
\<close>

definition AristaBase_check_config_mode ::
  "'d netmiko \<Rightarrow> string option \<Rightarrow> string option \<Rightarrow> 'd session \<Rightarrow> (exn + bool) \<times> 'd session" where
  "AristaBase_check_config_mode n check_string pattern s =
     (let check_string = default_to '')#'' check_string;
          pattern = default_to (''[>'' @ [backslash] @ ''#]'') pattern
      in bind_exn (write_channel n (RETURN s)) (\<lambda>_.
         bind_exn (read_until_pattern n pattern) (\<lambda>output.
           let output = replace output ''(s1)'' '''';
               output = replace output ''(s2)'' ''''
           in return_val (sublist check_string output))) s)"

text \<open>
  \<^verbatim>\<open>config_mode(self, config_command="configure terminal", pattern="", re_flags=0)\<close>.
\<close>

definition AristaBase_config_mode ::
  "'d netmiko \<Rightarrow> string option \<Rightarrow> string option \<Rightarrow> int option \<Rightarrow> 'd session \<Rightarrow>
     (exn + string) \<times> 'd session" where
  "AristaBase_config_mode n config_command pattern re_flags s =
     (let config_command = default_to ''configure terminal'' config_command;
          pattern = default_to '''' pattern;
          re_flags = default_to 0 re_flags;
          re_flags = (if re_flags = 0 then re_DOTALL else re_flags);
          check_string = re_escape '')#'';
          pattern = (if pattern = '''' then re_escape (take 16 (base_prompt s)) @ ''.*'' @ check_string
                     else pattern)
      in super_config_mode n config_command pattern re_flags s)"

subsection \<open>AristaSSH and AristaTelnet\<close>

text \<open>
  The constructors get the positional arguments and the keyword arguments (a dictionary)
  and hand them to the constructor of the base class, a parameter here.
  \<^verbatim>\<open>AristaSSH\<close> has an empty body.
\<close>

definition AristaSSH_init ::
  "(pyval list \<Rightarrow> (string \<rightharpoonup> pyval) \<Rightarrow> 'r) \<Rightarrow> pyval list \<Rightarrow> (string \<rightharpoonup> pyval) \<Rightarrow> 'r" where
  "AristaSSH_init super_init args kwargs = super_init args kwargs"

definition AristaTelnet_init ::
  "(pyval list \<Rightarrow> (string \<rightharpoonup> pyval) \<Rightarrow> 'r) \<Rightarrow> pyval list \<Rightarrow> (string \<rightharpoonup> pyval) \<Rightarrow> 'r" where
  "AristaTelnet_init super_init args kwargs =
     (let default_enter = (case kwargs ''default_enter'' of None \<Rightarrow> PyNone | Some v \<Rightarrow> v);
          kwargs = kwargs(''default_enter'' \<mapsto>
                     (if default_enter = PyNone then PyStr [CR, LF] else default_enter))
      in super_init args kwargs)"

subsection \<open>AristaFileTransfer\<close>

text \<open>The arguments of the constructor of \<^verbatim>\<open>CiscoFileTransfer\<close>.\<close>

record 'd transfer_args =
  arg_ssh_conn :: "'d session"
  arg_source_file :: string
  arg_dest_file :: string
  arg_file_system :: "string option"
  arg_direction :: string
  arg_kwargs :: "string \<rightharpoonup> pyval"

text \<open>
  \<^verbatim>\<open>__init__(self, ssh_conn, source_file, dest_file, file_system="/mnt/flash",
  direction="put", **kwargs)\<close>, where \<^verbatim>\<open>file_system\<close> is an \<^verbatim>\<open>Optional[str]\<close>.
\<close>

definition AristaFileTransfer_init ::
  "('d transfer_args \<Rightarrow> 'r) \<Rightarrow> 'd session \<Rightarrow> string \<Rightarrow> string \<Rightarrow> string option option \<Rightarrow>
     string option \<Rightarrow> (string \<rightharpoonup> pyval) \<Rightarrow> 'r" where
  "AristaFileTransfer_init super_init ssh_conn source_file dest_file file_system direction kwargs =
     (let file_system = default_to (Some ''/mnt/flash'') file_system;
          direction = default_to ''put'' direction
      in super_init \<lparr>arg_ssh_conn = ssh_conn, arg_source_file = source_file,
           arg_dest_file = dest_file, arg_file_system = file_system,
           arg_direction = direction, arg_kwargs = kwargs\<rparr>)"

text \<open>The attributes of a transfer that \<^verbatim>\<open>remote_md5\<close> reads, and its connection.\<close>

record 'd file_transfer =
  ssh_ctl_chan :: "'d session"
  source_file :: string
  dest_file :: string
  file_system :: "string option"
  direction :: string

text \<open>A method of the connection, called through \<^verbatim>\<open>self.ssh_ctl_chan\<close>.\<close>

definition on_ssh_ctl_chan ::
  "('d session \<Rightarrow> (exn + 'a) \<times> 'd session) \<Rightarrow> 'd file_transfer \<Rightarrow> (exn + 'a) \<times> 'd file_transfer" where
  "on_ssh_ctl_chan m ft = (case m (ssh_ctl_chan ft) of (r, c) \<Rightarrow> (r, ft\<lparr>ssh_ctl_chan := c\<rparr>))"

text \<open>What an f-string makes of an \<^verbatim>\<open>Optional[str]\<close>.\<close>

definition format_str :: "string option \<Rightarrow> string" where
  "format_str v = (case v of None \<Rightarrow> ''None'' | Some t \<Rightarrow> t)"

text \<open>
  \<^verbatim>\<open>remote_md5(self, base_cmd="verify /md5", remote_file=None)\<close>.  When
  \<^verbatim>\<open>remote_file\<close> is \<^verbatim>\<open>None\<close> and the direction is neither \<^verbatim>\<open>put\<close> nor
  \<^verbatim>\<open>get\<close>, it stays \<^verbatim>\<open>None\<close>.
\<close>

definition AristaFileTransfer_remote_md5 ::
  "'d netmiko \<Rightarrow> string option \<Rightarrow> string option \<Rightarrow> 'd file_transfer \<Rightarrow>
     (exn + string) \<times> 'd file_transfer" where
  "AristaFileTransfer_remote_md5 n base_cmd remote_file self =
     (let base_cmd = default_to ''verify /md5'' base_cmd;
          remote_file =
            (if remote_file = None then
               (if direction self = ''put'' then Some (dest_file self)
                else if direction self = ''get'' then Some (source_file self)
                else remote_file)
             else remote_file);
          remote_md5_cmd =
            base_cmd @ '' file:'' @ format_str (file_system self) @ ''/'' @ format_str remote_file
      in bind_exn (on_ssh_ctl_chan (send_command n remote_md5_cmd 600)) (\<lambda>dest_md5.
           case dest_md5 of
             Structured \<Rightarrow> raise_exn AssertionError
           | Str dest_md5 \<Rightarrow>
               (case impl_process_md5 n dest_md5 of
                  Inl e \<Rightarrow> raise_exn e
                | Inr dest_md5 \<Rightarrow> return_val dest_md5)) self)"

text \<open>
  \<^verbatim>\<open>enable_scp(self, cmd=None)\<close> and \<^verbatim>\<open>disable_scp(self, cmd=None)\<close>, where
  \<^verbatim>\<open>cmd\<close> is a string, a sequence of strings or \<^verbatim>\<open>None\<close>.
\<close>

datatype scp_cmd = Cmd string | Cmds "string list" | NoCmd

definition AristaFileTransfer_enable_scp ::
  "scp_cmd option \<Rightarrow> 'd file_transfer \<Rightarrow> (exn + unit) \<times> 'd file_transfer" where
  "AristaFileTransfer_enable_scp cmd = raise_exn NotImplementedError"

definition AristaFileTransfer_disable_scp ::
  "scp_cmd option \<Rightarrow> 'd file_transfer \<Rightarrow> (exn + unit) \<times> 'd file_transfer" where
  "AristaFileTransfer_disable_scp cmd = raise_exn NotImplementedError"

section \<open>endace\_ssh.py\<close>

text \<open>
  \<^verbatim>\<open>enable(self, cmd="enable", pattern="", enable_pattern=None,
  re_flags=re.IGNORECASE)\<close>.
\<close>

definition EndaceSSH_enable ::
  "'d netmiko \<Rightarrow> string option \<Rightarrow> string option \<Rightarrow> string option option \<Rightarrow> int option \<Rightarrow>
     'd session \<Rightarrow> (exn + string) \<times> 'd session" where
  "EndaceSSH_enable n cmd pattern enable_pattern re_flags =
     super_enable n (default_to ''enable'' cmd) (default_to '''' pattern)
       (default_to None enable_pattern) (default_to re_IGNORECASE re_flags)"

text \<open>\<^verbatim>\<open>check_config_mode(self, check_string="(config) #", pattern="")\<close>.\<close>

definition EndaceSSH_check_config_mode ::
  "'d netmiko \<Rightarrow> string option \<Rightarrow> string option \<Rightarrow> 'd session \<Rightarrow> (exn + bool) \<times> 'd session" where
  "EndaceSSH_check_config_mode n check_string pattern =
     super_check_config_mode n (default_to ''(config) #'' check_string) (default_to '''' pattern)"

text \<open>
  \<^verbatim>\<open>config_mode(self, config_command="conf t", pattern="", re_flags=0)\<close>; the
  method uses neither \<^verbatim>\<open>pattern\<close> nor \<^verbatim>\<open>re_flags\<close>.
\<close>

definition EndaceSSH_config_mode ::
  "'d netmiko \<Rightarrow> string option \<Rightarrow> string option \<Rightarrow> int option \<Rightarrow> 'd session \<Rightarrow>
     (exn + string) \<times> 'd session" where
  "EndaceSSH_config_mode n config_command pattern re_flags =
     (let config_command = default_to ''conf t'' config_command;
          output = ''''
      in bind_exn (EndaceSSH_check_config_mode n None None) (\<lambda>in_config.
           if \<not> in_config then
             bind_exn (send_command_timing n config_command False False) (\<lambda>new_data.
               case new_data of
                 Structured \<Rightarrow> raise_exn AssertionError
               | Str new_data \<Rightarrow>
                   (let output = output @ new_data
                    in bind_exn
                         (if sublist ''to enter configuration mode anyway'' output then
                            bind_exn (send_command_timing n ''YES'' False False) (\<lambda>new_data.
                              case new_data of
                                Structured \<Rightarrow> raise_exn AssertionError
                              | Str new_data \<Rightarrow> return_val (output @ new_data))
                          else return_val output)
                         (\<lambda>output.
                            bind_exn (EndaceSSH_check_config_mode n None None) (\<lambda>in_config.
                              if \<not> in_config then
                                raise_exn (ValueError ''Failed to enter configuration mode'')
                              else return_val output))))
           else return_val output))"

text \<open>
  \<^verbatim>\<open>save_config(self, cmd="configuration write", confirm=False,
  confirm_response="")\<close>.
\<close>

definition EndaceSSH_save_config ::
  "'d netmiko \<Rightarrow> string option \<Rightarrow> bool option \<Rightarrow> string option \<Rightarrow> 'd session \<Rightarrow>
     (exn + string) \<times> 'd session" where
  "EndaceSSH_save_config n cmd confirm confirm_response =
     (let cmd = default_to ''configuration write'' cmd;
          confirm = default_to False confirm;
          confirm_response = default_to '''' confirm_response
      in bind_exn (EndaceSSH_enable n None None None None) (\<lambda>_.
         bind_exn (EndaceSSH_config_mode n None None None) (\<lambda>_.
           super_save_config n cmd confirm confirm_response)))"

section \<open>Decorated prompts\<close>

text \<open>
  A prompt with quirk markers: its own characters, with whole markers \<^verbatim>\<open>(s1)\<close> and
  \<^verbatim>\<open>(s2)\<close> put anywhere between them.  \<open>decorated\<close> is the text the device sends,
  \<open>undecorated\<close> the prompt without the markers.
\<close>

datatype piece = Ch char | S1 | S2

fun decorated :: "piece list \<Rightarrow> string" where
  "decorated [] = []"
| "decorated (Ch c # ps) = c # decorated ps"
| "decorated (S1 # ps) = ''(s1)'' @ decorated ps"
| "decorated (S2 # ps) = ''(s2)'' @ decorated ps"

fun undecorated :: "piece list \<Rightarrow> string" where
  "undecorated [] = []"
| "undecorated (Ch c # ps) = c # undecorated ps"
| "undecorated (S1 # ps) = undecorated ps"
| "undecorated (S2 # ps) = undecorated ps"

text \<open>The events a method has added to the trace.\<close>

definition new_events :: "'d session \<Rightarrow> 'd session \<Rightarrow> event list" where
  "new_events s s' = drop (length (trace s)) (trace s')"

section \<open>Devices for concrete runs\<close>

text \<open>
  A device that answers every read with the text it holds (its prompt), and lets
  every other call succeed without a change.
\<close>

definition echo_device :: "string netmiko" where
  "echo_device =
     \<lparr>impl_write_channel = (\<lambda>out_data d. (Inr (), d)),
      impl_read_until_pattern = (\<lambda>pattern d. (Inr d, d)),
      impl_send_command_timing = (\<lambda>command_string strip_command strip_prompt d. (Inr (Str d), d)),
      impl_send_command = (\<lambda>command_string read_timeout d. (Inr (Str d), d)),
      impl_enable = (\<lambda>cmd pattern enable_pattern re_flags d. (Inr d, d)),
      impl_check_config_mode = (\<lambda>check_string pattern d. (Inr (sublist check_string d), d)),
      impl_config_mode = (\<lambda>config_command pattern re_flags d. (Inr d, d)),
      impl_save_config = (\<lambda>cmd confirm confirm_response d. (Inr d, d)),
      impl_process_md5 = (\<lambda>md5_output. Inr md5_output)\<rparr>"

definition echo_session :: "string \<Rightarrow> string session" where
  "echo_session prompt = \<lparr>RETURN = [LF], base_prompt = ''loc1-core01'', trace = [], dev = prompt\<rparr>"

text \<open>
  A device of the Endace kind, for concrete runs.  Its state says whether it is in
  configuration mode, whether it answers the configuration command with the warning,
  and whether it accepts the confirmation.
\<close>

definition endace_device :: "(bool \<times> bool \<times> bool) netmiko" where
  "endace_device =
     \<lparr>impl_write_channel = (\<lambda>out_data d. (Inr (), d)),
      impl_read_until_pattern = (\<lambda>pattern d. (Inr (if fst d then ''(config) # '' else ''# ''), d)),
      impl_send_command_timing = (\<lambda>command_string strip_command strip_prompt (c, w, a).
         if command_string = ''conf t'' then
           (if w then (Inr (Str ''Type YES to enter configuration mode anyway: ''), (c, w, a))
            else (Inr (Str ''(config) # ''), (True, w, a)))
         else if command_string = ''YES'' then
           (if a then (Inr (Str ''(config) # ''), (True, w, a)) else (Inr (Str ''# ''), (c, w, a)))
         else (Inr (Str ''# ''), (c, w, a))),
      impl_send_command = (\<lambda>command_string read_timeout d. (Inr (Str ''# ''), d)),
      impl_enable = (\<lambda>cmd pattern enable_pattern re_flags d. (Inr ''# '', d)),
      impl_check_config_mode = (\<lambda>check_string pattern d. (Inr (fst d), d)),
      impl_config_mode = (\<lambda>config_command pattern re_flags (c, w, a). (Inr ''(config) # '', (True, w, a))),
      impl_save_config = (\<lambda>cmd confirm confirm_response d. (Inr cmd, d)),
      impl_process_md5 = (\<lambda>md5_output. Inr md5_output)\<rparr>"

definition endace_session :: "bool \<times> bool \<times> bool \<Rightarrow> (bool \<times> bool \<times> bool) session" where
  "endace_session d = \<lparr>RETURN = [LF], base_prompt = ''dag'', trace = [], dev = d\<rparr>"

text \<open>The commands of the \<open>Send_command_timing\<close> events of a trace, in order.\<close>

fun sent_timing :: "event list \<Rightarrow> string list" where
  "sent_timing [] = []"
| "sent_timing (Send_command_timing command_string strip_command strip_prompt r # evs) =
     command_string # sent_timing evs"
| "sent_timing (ev # evs) = sent_timing evs"

text \<open>Whether an event is a call of the \<^verbatim>\<open>save_config\<close> of the base class.\<close>

fun is_save_config :: "event \<Rightarrow> bool" where
  "is_save_config (Super_save_config cmd confirm confirm_response r) = True"
| "is_save_config ev = False"

section \<open>Facts about \<open>replace\<close>\<close>

lemma replace_absent:
  "\<not> sublist old s \<Longrightarrow> replace s old new = s"
proof (induction s)
  case Nil
  then show ?case by auto
next
  case (Cons c s)
  from Cons.prems have np: "\<not> prefix old (c # s)" and ns: "\<not> sublist old s"
    by (auto simp: sublist_Cons_right)
  from Cons.prems have ne: "old \<noteq> []" by auto
  from Cons.IH [OF ns] np ne show ?case by simp
qed

lemma replace_skip:
  "old \<noteq> [] \<Longrightarrow> \<not> prefix old (c # s) \<Longrightarrow> replace (c # s) old new = c # replace s old new"
  by simp

lemma replace_hit:
  "old \<noteq> [] \<Longrightarrow> replace (old @ s) old new = new @ replace s old new"
  by (cases old) auto

text \<open>
  No occurrence of a marker can begin before a marker and end inside it: the markers
  begin with a character that they do not hold anywhere else.
\<close>

lemma no_straddle_s1:
  assumes np: "\<not> prefix ''(s1)'' (c # a)"
  shows "\<not> prefix ''(s1)'' (c # a @ ''(s1)'' @ b)"
proof (cases a)
  case Nil
  then show ?thesis by simp
next
  case a1: (Cons c1 a1)
  show ?thesis
  proof (cases a1)
    case Nil
    with a1 show ?thesis by simp
  next
    case a2: (Cons c2 a2)
    show ?thesis
    proof (cases a2)
      case Nil
      with a1 a2 show ?thesis by simp
    next
      case (Cons c3 a3)
      with a1 a2 np show ?thesis by simp
    qed
  qed
qed

lemma no_straddle_s2:
  assumes np: "\<not> prefix ''(s2)'' (c # a)"
  shows "\<not> prefix ''(s2)'' (c # a @ ''(s2)'' @ b)"
proof (cases a)
  case Nil
  then show ?thesis by simp
next
  case a1: (Cons c1 a1)
  show ?thesis
  proof (cases a1)
    case Nil
    with a1 show ?thesis by simp
  next
    case a2: (Cons c2 a2)
    show ?thesis
    proof (cases a2)
      case Nil
      with a1 a2 show ?thesis by simp
    next
      case (Cons c3 a3)
      with a1 a2 np show ?thesis by simp
    qed
  qed
qed

text \<open>
  Every occurrence of a marker in the text is replaced: wherever the text holds the
  marker, the scan treats the text before it and the text behind it on their own.
\<close>

lemma replace_occurrence_s1:
  "replace (a @ ''(s1)'' @ b) ''(s1)'' new = replace a ''(s1)'' new @ new @ replace b ''(s1)'' new"
proof (induction a "''(s1)''" new rule: replace.induct)
  case (1 new)
  show ?case using replace_hit [of "''(s1)''" b new] by simp
next
  case (2 c s new)
  show ?case
  proof (cases "prefix ''(s1)'' (c # s)")
    case True
    then obtain t where t: "c # s = ''(s1)'' @ t" by (auto simp: prefix_def)
    then have d: "drop (length ''(s1)'') (c # s) = t" by simp
    have "replace (t @ ''(s1)'' @ b) ''(s1)'' new = replace t ''(s1)'' new @ new @ replace b ''(s1)'' new"
      using "2.hyps"(2) True d by simp
    moreover have "replace ((c # s) @ ''(s1)'' @ b) ''(s1)'' new = new @ replace (t @ ''(s1)'' @ b) ''(s1)'' new"
      unfolding t using replace_hit [of "''(s1)''" "t @ ''(s1)'' @ b" new] by simp
    moreover have "replace (c # s) ''(s1)'' new = new @ replace t ''(s1)'' new"
      unfolding t using replace_hit [of "''(s1)''" t new] by simp
    ultimately show ?thesis by simp
  next
    case False
    then have "\<not> prefix ''(s1)'' (c # s @ ''(s1)'' @ b)" by (rule no_straddle_s1)
    then have "replace (c # s @ ''(s1)'' @ b) ''(s1)'' new = c # replace (s @ ''(s1)'' @ b) ''(s1)'' new"
      by (intro replace_skip) simp_all
    moreover have "replace (c # s) ''(s1)'' new = c # replace s ''(s1)'' new"
      using False by (intro replace_skip) simp_all
    moreover have "replace (s @ ''(s1)'' @ b) ''(s1)'' new = replace s ''(s1)'' new @ new @ replace b ''(s1)'' new"
      using "2.hyps"(3) False by simp
    ultimately show ?thesis by (simp del: replace.simps)
  qed
qed

lemma replace_occurrence_s2:
  "replace (a @ ''(s2)'' @ b) ''(s2)'' new = replace a ''(s2)'' new @ new @ replace b ''(s2)'' new"
proof (induction a "''(s2)''" new rule: replace.induct)
  case (1 new)
  show ?case using replace_hit [of "''(s2)''" b new] by simp
next
  case (2 c s new)
  show ?case
  proof (cases "prefix ''(s2)'' (c # s)")
    case True
    then obtain t where t: "c # s = ''(s2)'' @ t" by (auto simp: prefix_def)
    then have d: "drop (length ''(s2)'') (c # s) = t" by simp
    have "replace (t @ ''(s2)'' @ b) ''(s2)'' new = replace t ''(s2)'' new @ new @ replace b ''(s2)'' new"
      using "2.hyps"(2) True d by simp
    moreover have "replace ((c # s) @ ''(s2)'' @ b) ''(s2)'' new = new @ replace (t @ ''(s2)'' @ b) ''(s2)'' new"
      unfolding t using replace_hit [of "''(s2)''" "t @ ''(s2)'' @ b" new] by simp
    moreover have "replace (c # s) ''(s2)'' new = new @ replace t ''(s2)'' new"
      unfolding t using replace_hit [of "''(s2)''" t new] by simp
    ultimately show ?thesis by simp
  next
    case False
    then have "\<not> prefix ''(s2)'' (c # s @ ''(s2)'' @ b)" by (rule no_straddle_s2)
    then have "replace (c # s @ ''(s2)'' @ b) ''(s2)'' new = c # replace (s @ ''(s2)'' @ b) ''(s2)'' new"
      by (intro replace_skip) simp_all
    moreover have "replace (c # s) ''(s2)'' new = c # replace s ''(s2)'' new"
      using False by (intro replace_skip) simp_all
    moreover have "replace (s @ ''(s2)'' @ b) ''(s2)'' new = replace s ''(s2)'' new @ new @ replace b ''(s2)'' new"
      using "2.hyps"(3) False by simp
    ultimately show ?thesis by (simp del: replace.simps)
  qed
qed

section \<open>Stripping a decorated prompt\<close>

lemma prefix_decorated:
  "CHR ''('' \<notin> set w \<Longrightarrow> prefix w (decorated ps) \<Longrightarrow> prefix w (undecorated ps)"
proof (induction w arbitrary: ps)
  case Nil
  then show ?case by simp
next
  case (Cons x w)
  then show ?case by (cases ps rule: decorated.cases) auto
qed

lemma replace_s1_decorated:
  "\<not> sublist ''(s1)'' (undecorated ps) \<Longrightarrow>
   replace (decorated ps) ''(s1)'' [] = decorated (filter (\<lambda>p. p \<noteq> S1) ps)"
proof (induction ps rule: decorated.induct)
  case 1
  then show ?case by simp
next
  case (2 c ps)
  from "2.prems" have np: "\<not> prefix ''(s1)'' (c # undecorated ps)"
    and ns: "\<not> sublist ''(s1)'' (undecorated ps)"
    by (auto simp: sublist_Cons_right)
  have "\<not> prefix ''(s1)'' (c # decorated ps)"
  proof
    assume p: "prefix ''(s1)'' (c # decorated ps)"
    then have "prefix ''s1)'' (decorated ps)" and c: "c = CHR ''(''" by auto
    then have "prefix ''s1)'' (undecorated ps)" by (intro prefix_decorated) auto
    with c np show False by simp
  qed
  then have "replace (c # decorated ps) ''(s1)'' [] = c # replace (decorated ps) ''(s1)'' []"
    by (intro replace_skip) auto
  with "2.IH" [OF ns] show ?case by simp
next
  case (3 ps)
  then have "replace (decorated ps) ''(s1)'' [] = decorated (filter (\<lambda>p. p \<noteq> S1) ps)"
    by simp
  moreover have "replace (''(s1)'' @ decorated ps) ''(s1)'' [] = replace (decorated ps) ''(s1)'' []"
    using replace_hit [of "''(s1)''" "decorated ps" "[]"] by simp
  ultimately show ?case by simp
next
  case (4 ps)
  then have "replace (decorated ps) ''(s1)'' [] = decorated (filter (\<lambda>p. p \<noteq> S1) ps)"
    by simp
  then show ?case by simp
qed

lemma replace_s2_decorated:
  "\<not> sublist ''(s2)'' (undecorated ps) \<Longrightarrow>
   replace (decorated ps) ''(s2)'' [] = decorated (filter (\<lambda>p. p \<noteq> S2) ps)"
proof (induction ps rule: decorated.induct)
  case 1
  then show ?case by simp
next
  case (2 c ps)
  from "2.prems" have np: "\<not> prefix ''(s2)'' (c # undecorated ps)"
    and ns: "\<not> sublist ''(s2)'' (undecorated ps)"
    by (auto simp: sublist_Cons_right)
  have "\<not> prefix ''(s2)'' (c # decorated ps)"
  proof
    assume p: "prefix ''(s2)'' (c # decorated ps)"
    then have "prefix ''s2)'' (decorated ps)" and c: "c = CHR ''(''" by auto
    then have "prefix ''s2)'' (undecorated ps)" by (intro prefix_decorated) auto
    with c np show False by simp
  qed
  then have "replace (c # decorated ps) ''(s2)'' [] = c # replace (decorated ps) ''(s2)'' []"
    by (intro replace_skip) auto
  with "2.IH" [OF ns] show ?case by simp
next
  case (3 ps)
  then have "replace (decorated ps) ''(s2)'' [] = decorated (filter (\<lambda>p. p \<noteq> S2) ps)"
    by simp
  then show ?case by simp
next
  case (4 ps)
  then have "replace (decorated ps) ''(s2)'' [] = decorated (filter (\<lambda>p. p \<noteq> S2) ps)"
    by simp
  moreover have "replace (''(s2)'' @ decorated ps) ''(s2)'' [] = replace (decorated ps) ''(s2)'' []"
    using replace_hit [of "''(s2)''" "decorated ps" "[]"] by simp
  ultimately show ?case by simp
qed

lemma undecorated_filter:
  "undecorated (filter (\<lambda>p. p \<noteq> S1) ps) = undecorated ps"
  by (induction ps rule: decorated.induct) auto

lemma decorated_plain:
  "decorated (filter (\<lambda>p. p \<noteq> S2) (filter (\<lambda>p. p \<noteq> S1) ps)) = undecorated ps"
  by (induction ps rule: decorated.induct) auto

lemma strip_decorated:
  assumes "\<not> sublist ''(s1)'' (undecorated ps)" and "\<not> sublist ''(s2)'' (undecorated ps)"
  shows "replace (replace (decorated ps) ''(s1)'' []) ''(s2)'' [] = undecorated ps"
proof -
  let ?qs = "filter (\<lambda>p. p \<noteq> S1) ps"
  have a: "replace (decorated ps) ''(s1)'' [] = decorated ?qs"
    using assms(1) by (rule replace_s1_decorated)
  have b: "replace (decorated ?qs) ''(s2)'' [] = decorated (filter (\<lambda>p. p \<noteq> S2) ?qs)"
    using assms(2) by (intro replace_s2_decorated) (simp add: undecorated_filter)
  show ?thesis unfolding a b by (rule decorated_plain)
qed

section \<open>Unfolding the calls\<close>

lemmas run_defs = bind_exn_def invoke_def return_val_def raise_exn_def
  write_channel_def read_until_pattern_def send_command_timing_def send_command_def
  super_enable_def super_check_config_mode_def super_config_mode_def super_save_config_def

section \<open>AristaBase.check\_config\_mode\<close>

lemma AristaBase_check_config_mode_run:
  assumes w: "impl_write_channel n (RETURN s) (dev s) = (Inr (), d1)"
    and r: "impl_read_until_pattern n (default_to (''[>'' @ [backslash] @ ''#]'') pattern) d1
              = (Inr output, d2)"
  shows "AristaBase_check_config_mode n check_string pattern s =
           (Inr (sublist (default_to '')#'' check_string)
                  (replace (replace output ''(s1)'' '''') ''(s2)'' '''')),
            s\<lparr>trace := trace s @
                 [Write_channel (RETURN s) (Inr ()),
                  Read_until_pattern (default_to (''[>'' @ [backslash] @ ''#]'') pattern) (Inr output)],
              dev := d2\<rparr>)"
  using w r
  by (simp add: AristaBase_check_config_mode_def bind_exn_def write_channel_def
      read_until_pattern_def invoke_def return_val_def Let_def)

lemma AristaBase_check_config_mode_events:
  "\<exists>w rest. new_events s (snd (AristaBase_check_config_mode n check_string pattern s))
                = Write_channel (RETURN s) w # rest
             \<and> (rest = [] \<or> (\<exists>r. rest = [Read_until_pattern
                                  (default_to (''[>'' @ [backslash] @ ''#]'') pattern) r]))"
proof -
  let ?pat = "default_to (''[>'' @ [backslash] @ ''#]'') pattern"
  obtain w d1 where w: "impl_write_channel n (RETURN s) (dev s) = (w, d1)" by fastforce
  obtain r d2 where r: "impl_read_until_pattern n ?pat d1 = (r, d2)" by fastforce
  show ?thesis
  proof (cases w)
    case (Inl e)
    with w show ?thesis
      by (simp add: AristaBase_check_config_mode_def run_defs new_events_def Let_def)
  next
    case (Inr u)
    with w r show ?thesis
      by (cases r) (simp_all add: AristaBase_check_config_mode_def run_defs new_events_def Let_def)
  qed
qed

text \<open>
  Claim C4.  On every connection the method first writes \<^verbatim>\<open>self.RETURN\<close>, the line
  terminator of the session, once; it then reads at most once, until the pattern (by
  default \<^verbatim>\<open>[>\#]\<close>), and does nothing else.  Where the write and the read
  succeed, it returns whether the check string (by default \<^verbatim>\<open>)#\<close>) is a substring of
  the text read after the deletion of \<^verbatim>\<open>(s1)\<close> and then of \<^verbatim>\<open>(s2)\<close>.  The
  deletion takes out every occurrence: wherever the text holds a marker, what is left is
  what the deletion leaves of the text before it and of the text behind it.  Nothing of
  this depends on an earlier call.
\<close>

theorem AristaBase_check_config_mode_spec:
  "(\<exists>w rest. new_events s (snd (AristaBase_check_config_mode n check_string pattern s))
                = Write_channel (RETURN s) w # rest
             \<and> (rest = [] \<or> (\<exists>r. rest = [Read_until_pattern
                                  (default_to (''[>'' @ [backslash] @ ''#]'') pattern) r])))
   \<and> (\<forall>d1 output d2.
        impl_write_channel n (RETURN s) (dev s) = (Inr (), d1) \<longrightarrow>
        impl_read_until_pattern n (default_to (''[>'' @ [backslash] @ ''#]'') pattern) d1
          = (Inr output, d2) \<longrightarrow>
        AristaBase_check_config_mode n check_string pattern s =
           (Inr (\<exists>ps ss. replace (replace output ''(s1)'' '''') ''(s2)'' ''''
                          = ps @ default_to '')#'' check_string @ ss),
            s\<lparr>trace := trace s @
                 [Write_channel (RETURN s) (Inr ()),
                  Read_until_pattern (default_to (''[>'' @ [backslash] @ ''#]'') pattern) (Inr output)],
              dev := d2\<rparr>)
        \<and> (\<forall>a b. output = a @ ''(s1)'' @ b \<longrightarrow>
              replace output ''(s1)'' '''' = replace a ''(s1)'' '''' @ replace b ''(s1)'' '''')
        \<and> (\<forall>a b. replace output ''(s1)'' '''' = a @ ''(s2)'' @ b \<longrightarrow>
              replace (replace output ''(s1)'' '''') ''(s2)'' ''''
                = replace a ''(s2)'' '''' @ replace b ''(s2)'' ''''))"
proof (intro conjI allI impI)
  show "\<exists>w rest. new_events s (snd (AristaBase_check_config_mode n check_string pattern s))
                = Write_channel (RETURN s) w # rest
             \<and> (rest = [] \<or> (\<exists>r. rest = [Read_until_pattern
                                  (default_to (''[>'' @ [backslash] @ ''#]'') pattern) r]))"
    by (rule AristaBase_check_config_mode_events)
next
  fix d1 out d2
  assume w: "impl_write_channel n (RETURN s) (dev s) = (Inr (), d1)"
    and r: "impl_read_until_pattern n (default_to (''[>'' @ [backslash] @ ''#]'') pattern) d1
              = (Inr out, d2)"
  show "AristaBase_check_config_mode n check_string pattern s =
           (Inr (\<exists>ps ss. replace (replace out ''(s1)'' '''') ''(s2)'' ''''
                          = ps @ default_to '')#'' check_string @ ss),
            s\<lparr>trace := trace s @
                 [Write_channel (RETURN s) (Inr ()),
                  Read_until_pattern (default_to (''[>'' @ [backslash] @ ''#]'') pattern) (Inr out)],
              dev := d2\<rparr>)"
    using AristaBase_check_config_mode_run [OF w r, of check_string]
    by (simp only: sublist_def)
next
  fix out :: string and a b
  assume "out = a @ ''(s1)'' @ b"
  then show "replace out ''(s1)'' '''' = replace a ''(s1)'' '''' @ replace b ''(s1)'' ''''"
    using replace_occurrence_s1 [of a b "''''"] by simp
next
  fix out :: string and a b
  assume "replace out ''(s1)'' '''' = a @ ''(s2)'' @ b"
  then show "replace (replace out ''(s1)'' '''') ''(s2)'' ''''
                 = replace a ''(s2)'' '''' @ replace b ''(s2)'' ''''"
    using replace_occurrence_s2 [of a b "''''"] by simp
qed

theorem AristaBase_check_config_mode_spec_witness:
  "impl_write_channel echo_device (RETURN (echo_session ''loc1-core01(s1)(config)#''))
       (dev (echo_session ''loc1-core01(s1)(config)#'')) = (Inr (), ''loc1-core01(s1)(config)#'')
   \<and> impl_read_until_pattern echo_device (default_to (''[>'' @ [backslash] @ ''#]'') None)
       ''loc1-core01(s1)(config)#'' = (Inr ''loc1-core01(s1)(config)#'', ''loc1-core01(s1)(config)#'')
   \<and> AristaBase_check_config_mode echo_device None None (echo_session ''loc1-core01(s1)(config)#'')
       = (Inr True,
          \<lparr>RETURN = [LF], base_prompt = ''loc1-core01'',
           trace = [Write_channel [LF] (Inr ()),
                    Read_until_pattern (''[>'' @ [backslash] @ ''#]'') (Inr ''loc1-core01(s1)(config)#'')],
           dev = ''loc1-core01(s1)(config)#''\<rparr>)
   \<and> replace ''loc1-core01(s1)(config)#'' ''(s1)'' '''' = ''loc1-core01(config)#''"
proof -
  let ?p = "''loc1-core01(s1)(config)#''"
  have w: "impl_write_channel echo_device (RETURN (echo_session ?p)) (dev (echo_session ?p)) = (Inr (), ?p)"
    by (simp add: echo_device_def echo_session_def)
  have r: "impl_read_until_pattern echo_device (default_to (''[>'' @ [backslash] @ ''#]'') None) ?p
             = (Inr ?p, ?p)"
    by (simp add: echo_device_def)
  have c: "replace (replace ?p ''(s1)'' '''') ''(s2)'' '''' = ''loc1-core01(config)#''"
    by simp
  have e: "\<exists>ps ss. ''loc1-core01(config)#'' = ps @ default_to '')#'' None @ ss"
    using sublist_def [of "'')#''" "''loc1-core01(config)#''"]
    by (simp add: sublist_Cons_right default_to_def)
  note t = AristaBase_check_config_mode_spec [of "echo_session ?p" echo_device None None,
      THEN conjunct2, rule_format, OF w r]
  have o: "?p = ''loc1-core01'' @ ''(s1)'' @ ''(config)#''" by simp
  from t have "replace ?p ''(s1)'' '''' = replace ''loc1-core01'' ''(s1)'' '''' @ replace ''(config)#'' ''(s1)'' ''''"
    using o by blast
  then have "replace ?p ''(s1)'' '''' = ''loc1-core01(config)#''" by simp
  moreover from t have "AristaBase_check_config_mode echo_device None None (echo_session ?p)
       = (Inr True,
          \<lparr>RETURN = [LF], base_prompt = ''loc1-core01'',
           trace = [Write_channel [LF] (Inr ()),
                    Read_until_pattern (''[>'' @ [backslash] @ ''#]'') (Inr ?p)],
           dev = ?p\<rparr>)"
    unfolding c using e by (simp add: echo_session_def default_to_def)
  ultimately show ?thesis using w r by simp
qed

section \<open>Decorated prompts and the check\<close>

text \<open>
  Claim C1, as amended.  Take a prompt that holds neither \<^verbatim>\<open>(s1)\<close> nor
  \<^verbatim>\<open>(s2)\<close>, and decorate it with whole markers between its characters.  Then the
  method returns on the decorated prompt what it returns on the undecorated one, for
  every check string; the deletion gives the undecorated prompt back, and deleting
  twice gives what deleting once gives.
\<close>

theorem AristaBase_check_config_mode_decorated:
  assumes free1: "\<not> sublist ''(s1)'' (undecorated ps)"
    and free2: "\<not> sublist ''(s2)'' (undecorated ps)"
    and wd: "impl_write_channel n (RETURN s) (dev s) = (Inr (), d1)"
    and rd: "impl_read_until_pattern n (default_to (''[>'' @ [backslash] @ ''#]'') pattern) d1
               = (Inr (decorated ps), d2)"
    and wu: "impl_write_channel n' (RETURN s') (dev s') = (Inr (), d1')"
    and ru: "impl_read_until_pattern n' (default_to (''[>'' @ [backslash] @ ''#]'') pattern) d1'
               = (Inr (undecorated ps), d2')"
  shows "fst (AristaBase_check_config_mode n check_string pattern s)
           = fst (AristaBase_check_config_mode n' check_string pattern s')
         \<and> fst (AristaBase_check_config_mode n check_string pattern s)
           = Inr (sublist (default_to '')#'' check_string) (undecorated ps))
         \<and> replace (replace (decorated ps) ''(s1)'' '''') ''(s2)'' '''' = undecorated ps
         \<and> replace (replace (replace (replace (decorated ps) ''(s1)'' '''') ''(s2)'' '''')
               ''(s1)'' '''') ''(s2)'' ''''
           = replace (replace (decorated ps) ''(s1)'' '''') ''(s2)'' ''''"
proof -
  have d: "replace (replace (decorated ps) ''(s1)'' '''') ''(s2)'' '''' = undecorated ps"
    using free1 free2 by (rule strip_decorated)
  have u: "replace (replace (undecorated ps) ''(s1)'' '''') ''(s2)'' '''' = undecorated ps"
    using free1 free2 by (simp add: replace_absent)
  have "fst (AristaBase_check_config_mode n check_string pattern s)
          = Inr (sublist (default_to '')#'' check_string) (undecorated ps))"
    using AristaBase_check_config_mode_run [OF wd rd, of check_string] by (simp add: d)
  moreover have "fst (AristaBase_check_config_mode n' check_string pattern s')
          = Inr (sublist (default_to '')#'' check_string) (undecorated ps))"
    using AristaBase_check_config_mode_run [OF wu ru, of check_string] by (simp add: u)
  ultimately show ?thesis by (simp add: d u)
qed

theorem AristaBase_check_config_mode_decorated_witness:
  "\<not> sublist ''(s1)'' (undecorated [Ch CHR ''a'', S2, S1, Ch CHR '')'', S1, Ch CHR ''#''])
   \<and> \<not> sublist ''(s2)'' (undecorated [Ch CHR ''a'', S2, S1, Ch CHR '')'', S1, Ch CHR ''#''])
   \<and> decorated [Ch CHR ''a'', S2, S1, Ch CHR '')'', S1, Ch CHR ''#''] = ''a(s2)(s1))(s1)#''
   \<and> undecorated [Ch CHR ''a'', S2, S1, Ch CHR '')'', S1, Ch CHR ''#''] = ''a)#''
   \<and> fst (AristaBase_check_config_mode echo_device None None (echo_session ''a(s2)(s1))(s1)#''))
       = fst (AristaBase_check_config_mode echo_device None None (echo_session ''a)#''))
   \<and> fst (AristaBase_check_config_mode echo_device None None (echo_session ''a(s2)(s1))(s1)#''))
       = Inr True
   \<and> replace (replace ''a(s2)(s1))(s1)#'' ''(s1)'' '''') ''(s2)'' '''' = ''a)#''"
proof -
  let ?ps = "[Ch CHR ''a'', S2, S1, Ch CHR '')'', S1, Ch CHR ''#'']"
  have dec: "decorated ?ps = ''a(s2)(s1))(s1)#''" by simp
  have und: "undecorated ?ps = ''a)#''" by simp
  have f1: "\<not> sublist ''(s1)'' (undecorated ?ps)" by (simp add: sublist_Cons_right)
  have f2: "\<not> sublist ''(s2)'' (undecorated ?ps)" by (simp add: sublist_Cons_right)
  have wd: "impl_write_channel echo_device (RETURN (echo_session ''a(s2)(s1))(s1)#''))
              (dev (echo_session ''a(s2)(s1))(s1)#'')) = (Inr (), ''a(s2)(s1))(s1)#'')"
    by (simp add: echo_device_def echo_session_def)
  have rd: "impl_read_until_pattern echo_device (default_to (''[>'' @ [backslash] @ ''#]'') None)
              ''a(s2)(s1))(s1)#'' = (Inr (decorated ?ps), ''a(s2)(s1))(s1)#'')"
    by (simp add: echo_device_def)
  have wu: "impl_write_channel echo_device (RETURN (echo_session ''a)#''))
              (dev (echo_session ''a)#'')) = (Inr (), ''a)#'')"
    by (simp add: echo_device_def echo_session_def)
  have ru: "impl_read_until_pattern echo_device (default_to (''[>'' @ [backslash] @ ''#]'') None)
              ''a)#'' = (Inr (undecorated ?ps), ''a)#'')"
    by (simp add: echo_device_def)
  have s: "sublist (default_to '')#'' None) ''a)#''"
    by (simp add: sublist_Cons_right default_to_def)
  note t = AristaBase_check_config_mode_decorated [OF f1 f2 wd rd wu ru, of None]
  from t have b: "fst (AristaBase_check_config_mode echo_device None None (echo_session ''a(s2)(s1))(s1)#''))
       = fst (AristaBase_check_config_mode echo_device None None (echo_session ''a)#''))"
    by blast
  from t have "fst (AristaBase_check_config_mode echo_device None None (echo_session ''a(s2)(s1))(s1)#''))
       = Inr (sublist (default_to '')#'' None) (undecorated ?ps))"
    by blast
  with s have a: "fst (AristaBase_check_config_mode echo_device None None (echo_session ''a(s2)(s1))(s1)#''))
       = Inr True"
    by (simp only: und simp_thms)
  from t have "replace (replace (decorated ?ps) ''(s1)'' '''') ''(s2)'' '''' = undecorated ?ps"
    by blast
  then have c: "replace (replace ''a(s2)(s1))(s1)#'' ''(s1)'' '''') ''(s2)'' '''' = ''a)#''"
    by (simp only: dec und)
  show ?thesis by (intro conjI) (fact f1 f2 dec und b a c)+
qed

text \<open>
  Claim C1 as it was stated, for every decorated prompt, fails.  The prompt
  \<^verbatim>\<open>sw(s1)#\<close> with a marker put into it is \<^verbatim>\<open>sw(s(s1)1)#\<close>: the scan of
  \<^verbatim>\<open>replace\<close> deletes the marker in the middle and does not look at its result, so the
  method reports configuration mode for the decorated prompt, and not for the prompt
  without the inserted marker, nor for the prompt without any marker; and a second
  deletion changes the text again.
\<close>

theorem AristaBase_check_config_mode_decorated_counterexample:
  "decorated [Ch CHR ''s'', Ch CHR ''w'', Ch CHR ''('', Ch CHR ''s'', S1, Ch CHR ''1'', Ch CHR '')'', Ch CHR ''#'']
     = ''sw(s(s1)1)#''
   \<and> undecorated [Ch CHR ''s'', Ch CHR ''w'', Ch CHR ''('', Ch CHR ''s'', S1, Ch CHR ''1'', Ch CHR '')'', Ch CHR ''#'']
     = ''sw(s1)#''
   \<and> fst (AristaBase_check_config_mode echo_device None None (echo_session ''sw(s(s1)1)#'')) = Inr True
   \<and> fst (AristaBase_check_config_mode echo_device None None (echo_session ''sw(s1)#'')) = Inr False
   \<and> fst (AristaBase_check_config_mode echo_device None None (echo_session ''sw#'')) = Inr False
   \<and> replace (replace (replace (replace ''sw(s(s1)1)#'' ''(s1)'' '''') ''(s2)'' '''') ''(s1)'' '''') ''(s2)'' ''''
     \<noteq> replace (replace ''sw(s(s1)1)#'' ''(s1)'' '''') ''(s2)'' ''''"
  by (simp add: AristaBase_check_config_mode_def bind_exn_def write_channel_def
      read_until_pattern_def invoke_def return_val_def echo_device_def echo_session_def
      default_to_def sublist_Cons_right Let_def)

section \<open>AristaBase.config\_mode\<close>

text \<open>
  Claim C3.  With an empty pattern (or none) the method waits for the escaped first
  16 characters of \<^verbatim>\<open>base_prompt\<close>, then \<^verbatim>\<open>.*\<close>, then the escaped \<^verbatim>\<open>)#\<close>,
  which is \<^verbatim>\<open>\)\#\<close>; a pattern that is not empty is kept.  Flags equal to 0 (or
  none) become \<^verbatim>\<open>re.DOTALL\<close>, which is 16; other flags are kept.
\<close>

theorem AristaBase_config_mode_pattern:
  "AristaBase_config_mode n config_command pattern re_flags s =
     super_config_mode n (default_to ''configure terminal'' config_command)
       (if default_to '''' pattern = ''''
        then re_escape (take 16 (base_prompt s)) @ ''.*'' @ re_escape '')#''
        else default_to '''' pattern)
       (if default_to 0 re_flags = 0 then re_DOTALL else default_to 0 re_flags) s
   \<and> re_escape '')#'' = [backslash, CHR '')'', backslash, CHR ''#'']
   \<and> re_DOTALL = 16"
  by (simp add: AristaBase_config_mode_def re_escape_def special_chars_def re_DOTALL_def Let_def)

theorem AristaBase_config_mode_pattern_witness:
  "AristaBase_config_mode echo_device None None None
     \<lparr>RETURN = [LF], base_prompt = ''loc1-core01.example'', trace = [], dev = ''loc1-core01(config)#''\<rparr>
   = (Inr ''loc1-core01(config)#'',
      \<lparr>RETURN = [LF], base_prompt = ''loc1-core01.example'',
       trace = [Super_config_mode ''configure terminal''
                  (''loc1'' @ [backslash] @ ''-core01'' @ [backslash] @ ''.exam.*'' @ [backslash] @ '')''
                     @ [backslash] @ ''#'')
                  16 (Inr ''loc1-core01(config)#'')],
       dev = ''loc1-core01(config)#''\<rparr>)"
proof -
  have e: "re_escape ''loc1-core01.exam''
             = ''loc1'' @ [backslash] @ ''-core01'' @ [backslash] @ ''.exam''"
    by (simp add: re_escape_def special_chars_def backslash_def CR_def LF_def)
  show ?thesis
    using AristaBase_config_mode_pattern [of echo_device None None None
      "\<lparr>RETURN = [LF], base_prompt = ''loc1-core01.example'', trace = [], dev = ''loc1-core01(config)#''\<rparr>"]
    by (simp add: default_to_def super_config_mode_def invoke_def echo_device_def e re_DOTALL_def)
qed

section \<open>AristaTelnet and AristaFileTransfer\<close>

text \<open>
  Claim C9.  \<^verbatim>\<open>AristaTelnet\<close> hands \<^verbatim>\<open>default_enter\<close> to the constructor of the
  base class: as carriage return and line feed when the caller gave none or gave
  \<^verbatim>\<open>None\<close>, and as the caller gave it otherwise; the other keyword arguments and the
  positional ones are handed over as they are.  \<^verbatim>\<open>AristaSSH\<close> hands everything over
  as it is.
\<close>

theorem AristaTelnet_init_default_enter:
  "(kwargs ''default_enter'' = None \<or> kwargs ''default_enter'' = Some PyNone \<longrightarrow>
      AristaTelnet_init super_init args kwargs
        = super_init args (kwargs(''default_enter'' \<mapsto> PyStr [CR, LF])))
   \<and> (kwargs ''default_enter'' = Some v \<and> v \<noteq> PyNone \<longrightarrow>
      AristaTelnet_init super_init args kwargs = super_init args kwargs)
   \<and> AristaSSH_init super_init args kwargs = super_init args kwargs
   \<and> [CR, LF] = [CHR 0x0D, CHR 0x0A]"
  by (auto simp: AristaTelnet_init_def AristaSSH_init_def Let_def CR_def LF_def map_upd_triv)

theorem AristaTelnet_init_default_enter_witness:
  "(Map.empty :: string \<rightharpoonup> pyval) ''default_enter'' = None
   \<and> AristaTelnet_init (\<lambda>args kwargs. kwargs ''default_enter'') [] Map.empty = Some (PyStr [CR, LF])
   \<and> [''default_enter'' \<mapsto> PyStr [LF]] ''default_enter'' = Some (PyStr [LF]) \<and> PyStr [LF] \<noteq> PyNone
   \<and> AristaTelnet_init (\<lambda>args kwargs. kwargs ''default_enter'') [] [''default_enter'' \<mapsto> PyStr [LF]]
       = Some (PyStr [LF])"
  using AristaTelnet_init_default_enter [where kwargs = Map.empty and v = "PyStr [LF]"
      and super_init = "\<lambda>args kwargs. kwargs ''default_enter''" and args = "[]"]
    AristaTelnet_init_default_enter [where kwargs = "[''default_enter'' \<mapsto> PyStr [LF]]"
      and v = "PyStr [LF]" and super_init = "\<lambda>args kwargs. kwargs ''default_enter''" and args = "[]"]
  by simp

text \<open>
  Claim C8.  The constructor hands \<^verbatim>\<open>/mnt/flash\<close> as the file system and
  \<^verbatim>\<open>put\<close> as the direction to the constructor of the base class when the caller
  gave none, and what the caller gave otherwise; all other arguments are handed over as
  they are.
\<close>

theorem AristaFileTransfer_init_defaults:
  "AristaFileTransfer_init super_init ssh_conn src dst None None kwargs =
     super_init \<lparr>arg_ssh_conn = ssh_conn, arg_source_file = src, arg_dest_file = dst,
       arg_file_system = Some ''/mnt/flash'', arg_direction = ''put'', arg_kwargs = kwargs\<rparr>
   \<and> AristaFileTransfer_init super_init ssh_conn src dst (Some fs) (Some dir) kwargs =
     super_init \<lparr>arg_ssh_conn = ssh_conn, arg_source_file = src, arg_dest_file = dst,
       arg_file_system = fs, arg_direction = dir, arg_kwargs = kwargs\<rparr>
   \<and> AristaFileTransfer_init super_init ssh_conn src dst None (Some dir) kwargs =
     super_init \<lparr>arg_ssh_conn = ssh_conn, arg_source_file = src, arg_dest_file = dst,
       arg_file_system = Some ''/mnt/flash'', arg_direction = dir, arg_kwargs = kwargs\<rparr>
   \<and> AristaFileTransfer_init super_init ssh_conn src dst (Some fs) None kwargs =
     super_init \<lparr>arg_ssh_conn = ssh_conn, arg_source_file = src, arg_dest_file = dst,
       arg_file_system = fs, arg_direction = ''put'', arg_kwargs = kwargs\<rparr>"
  by (simp add: AristaFileTransfer_init_def default_to_def)

lemma AristaFileTransfer_remote_md5_events:
  assumes fs: "file_system self = Some fs"
    and rf: "remote_file = Some rf
             \<or> remote_file = None \<and> direction self = ''put'' \<and> rf = dest_file self
             \<or> remote_file = None \<and> direction self = ''get'' \<and> rf = source_file self"
  shows "\<exists>r. new_events (ssh_ctl_chan self)
               (ssh_ctl_chan (snd (AristaFileTransfer_remote_md5 n base_cmd remote_file self)))
             = [Send_command (default_to ''verify /md5'' base_cmd @ '' file:'' @ fs @ ''/'' @ rf) 600 r]"
proof -
  let ?cmd = "default_to ''verify /md5'' base_cmd @ '' file:'' @ fs @ ''/'' @ rf"
  have f: "format_str (if remote_file = None then
               (if direction self = ''put'' then Some (dest_file self)
                else if direction self = ''get'' then Some (source_file self)
                else remote_file)
             else remote_file) = rf"
    using rf by (auto simp: format_str_def)
  obtain r d1 where sc: "impl_send_command n ?cmd 600 (dev (ssh_ctl_chan self)) = (r, d1)"
    by fastforce
  show ?thesis
  proof (cases r)
    case (Inl e)
    with f fs sc show ?thesis
      by (simp add: AristaFileTransfer_remote_md5_def Let_def format_str_def on_ssh_ctl_chan_def
          run_defs new_events_def)
  next
    case (Inr out)
    with f fs sc show ?thesis
      by (cases out; cases "impl_process_md5 n (case out of Str t \<Rightarrow> t | Structured \<Rightarrow> [])")
        (simp_all add: AristaFileTransfer_remote_md5_def Let_def format_str_def on_ssh_ctl_chan_def
          run_defs new_events_def)
  qed
qed

text \<open>
  Claim C7.  With a file system \<open>fs\<close> and the remote file \<open>rf\<close> (the one given, or
  \<^verbatim>\<open>dest_file\<close> for the direction \<^verbatim>\<open>put\<close>, or \<^verbatim>\<open>source_file\<close> for the
  direction \<^verbatim>\<open>get\<close>), the method makes one call on its connection: it sends the
  command \<open>base_cmd @ '' file:'' @ fs @ ''/'' @ rf\<close> with a read timeout of 600.  Where
  this returns a string, the method returns what \<^verbatim>\<open>process_md5\<close> makes of it.
\<close>

theorem AristaFileTransfer_remote_md5_command:
  assumes fs: "file_system self = Some fs"
    and rf: "remote_file = Some rf
             \<or> remote_file = None \<and> direction self = ''put'' \<and> rf = dest_file self
             \<or> remote_file = None \<and> direction self = ''get'' \<and> rf = source_file self"
  shows "(\<exists>r. new_events (ssh_ctl_chan self)
               (ssh_ctl_chan (snd (AristaFileTransfer_remote_md5 n base_cmd remote_file self)))
             = [Send_command (default_to ''verify /md5'' base_cmd @ '' file:'' @ fs @ ''/'' @ rf) 600 r])
       \<and> (\<forall>out d1.
            impl_send_command n (default_to ''verify /md5'' base_cmd @ '' file:'' @ fs @ ''/'' @ rf)
               600 (dev (ssh_ctl_chan self)) = (Inr (Str out), d1) \<longrightarrow>
            AristaFileTransfer_remote_md5 n base_cmd remote_file self =
              (impl_process_md5 n out,
               self\<lparr>ssh_ctl_chan := (ssh_ctl_chan self)
                 \<lparr>trace := trace (ssh_ctl_chan self) @
                    [Send_command (default_to ''verify /md5'' base_cmd @ '' file:'' @ fs @ ''/'' @ rf)
                       600 (Inr (Str out))],
                  dev := d1\<rparr>\<rparr>))"
proof (intro conjI allI impI)
  show "\<exists>r. new_events (ssh_ctl_chan self)
               (ssh_ctl_chan (snd (AristaFileTransfer_remote_md5 n base_cmd remote_file self)))
             = [Send_command (default_to ''verify /md5'' base_cmd @ '' file:'' @ fs @ ''/'' @ rf) 600 r]"
    using fs rf by (rule AristaFileTransfer_remote_md5_events)
next
  fix out d1
  assume sc: "impl_send_command n (default_to ''verify /md5'' base_cmd @ '' file:'' @ fs @ ''/'' @ rf)
               600 (dev (ssh_ctl_chan self)) = (Inr (Str out), d1)"
  have "format_str (if remote_file = None then
               (if direction self = ''put'' then Some (dest_file self)
                else if direction self = ''get'' then Some (source_file self)
                else remote_file)
             else remote_file) = rf"
    using rf by (auto simp: format_str_def)
  then show "AristaFileTransfer_remote_md5 n base_cmd remote_file self =
              (impl_process_md5 n out,
               self\<lparr>ssh_ctl_chan := (ssh_ctl_chan self)
                 \<lparr>trace := trace (ssh_ctl_chan self) @
                    [Send_command (default_to ''verify /md5'' base_cmd @ '' file:'' @ fs @ ''/'' @ rf)
                       600 (Inr (Str out))],
                  dev := d1\<rparr>\<rparr>)"
    using fs sc
    by (simp add: AristaFileTransfer_remote_md5_def Let_def format_str_def on_ssh_ctl_chan_def
        run_defs split: sum.split)
qed

theorem AristaFileTransfer_remote_md5_command_witness:
  "file_system \<lparr>ssh_ctl_chan = echo_session ''d41d8cd98f00b204e9800998ecf8427e'',
       source_file = ''eos.swi'', dest_file = ''eos-new.swi'',
       file_system = Some ''/mnt/flash'', direction = ''put''\<rparr> = Some ''/mnt/flash''
   \<and> impl_send_command echo_device ''verify /md5 file:/mnt/flash/eos-new.swi'' 600
         ''d41d8cd98f00b204e9800998ecf8427e''
       = (Inr (Str ''d41d8cd98f00b204e9800998ecf8427e''), ''d41d8cd98f00b204e9800998ecf8427e'')
   \<and> AristaFileTransfer_remote_md5 echo_device None None
       \<lparr>ssh_ctl_chan = echo_session ''d41d8cd98f00b204e9800998ecf8427e'',
        source_file = ''eos.swi'', dest_file = ''eos-new.swi'',
        file_system = Some ''/mnt/flash'', direction = ''put''\<rparr>
     = (Inr ''d41d8cd98f00b204e9800998ecf8427e'',
        \<lparr>ssh_ctl_chan =
           \<lparr>RETURN = [LF], base_prompt = ''loc1-core01'',
            trace = [Send_command ''verify /md5 file:/mnt/flash/eos-new.swi'' 600
                       (Inr (Str ''d41d8cd98f00b204e9800998ecf8427e''))],
            dev = ''d41d8cd98f00b204e9800998ecf8427e''\<rparr>,
         source_file = ''eos.swi'', dest_file = ''eos-new.swi'',
         file_system = Some ''/mnt/flash'', direction = ''put''\<rparr>)"
proof -
  let ?self = "\<lparr>ssh_ctl_chan = echo_session ''d41d8cd98f00b204e9800998ecf8427e'',
       source_file = ''eos.swi'', dest_file = ''eos-new.swi'',
       file_system = Some ''/mnt/flash'', direction = ''put''\<rparr>"
  have fs: "file_system ?self = Some ''/mnt/flash''" by simp
  have rf: "None = Some ''eos-new.swi''
            \<or> None = None \<and> direction ?self = ''put'' \<and> ''eos-new.swi'' = dest_file ?self
            \<or> None = None \<and> direction ?self = ''get'' \<and> ''eos-new.swi'' = source_file ?self"
    by simp
  have sc: "impl_send_command echo_device
              (default_to ''verify /md5'' None @ '' file:'' @ ''/mnt/flash'' @ ''/'' @ ''eos-new.swi'')
              600 (dev (ssh_ctl_chan ?self))
            = (Inr (Str ''d41d8cd98f00b204e9800998ecf8427e''), ''d41d8cd98f00b204e9800998ecf8427e'')"
    by (simp add: echo_device_def echo_session_def)
  have sc': "impl_send_command echo_device ''verify /md5 file:/mnt/flash/eos-new.swi'' 600
         ''d41d8cd98f00b204e9800998ecf8427e''
       = (Inr (Str ''d41d8cd98f00b204e9800998ecf8427e''), ''d41d8cd98f00b204e9800998ecf8427e'')"
    by (simp add: echo_device_def)
  from AristaFileTransfer_remote_md5_command [OF fs rf, THEN conjunct2, rule_format, OF sc]
  have "AristaFileTransfer_remote_md5 echo_device None None ?self
     = (Inr ''d41d8cd98f00b204e9800998ecf8427e'',
        \<lparr>ssh_ctl_chan =
           \<lparr>RETURN = [LF], base_prompt = ''loc1-core01'',
            trace = [Send_command ''verify /md5 file:/mnt/flash/eos-new.swi'' 600
                       (Inr (Str ''d41d8cd98f00b204e9800998ecf8427e''))],
            dev = ''d41d8cd98f00b204e9800998ecf8427e''\<rparr>,
         source_file = ''eos.swi'', dest_file = ''eos-new.swi'',
         file_system = Some ''/mnt/flash'', direction = ''put''\<rparr>)"
    by (simp add: echo_device_def echo_session_def default_to_def)
  with fs sc' show ?thesis by (intro conjI)
qed

text \<open>
  Claim C6.  \<^verbatim>\<open>enable_scp\<close> and \<^verbatim>\<open>disable_scp\<close> raise
  \<^verbatim>\<open>NotImplementedError\<close> for every argument, and leave the transfer and its
  connection as they were: no event is added to the trace.
\<close>

theorem AristaFileTransfer_scp_not_implemented:
  "AristaFileTransfer_enable_scp cmd self = (Inl NotImplementedError, self)
   \<and> AristaFileTransfer_disable_scp cmd self = (Inl NotImplementedError, self)"
  by (simp add: AristaFileTransfer_enable_scp_def AristaFileTransfer_disable_scp_def raise_exn_def)

section \<open>EndaceSSH.config\_mode\<close>

lemmas config_mode_defs = EndaceSSH_config_mode_def EndaceSSH_check_config_mode_def run_defs
  new_events_def default_to_def Let_def

lemma EndaceSSH_config_mode_trace:
  fixes n :: "'d netmiko" and s :: "'d session" and config_command pattern re_flags
  defines "s' \<equiv> snd (EndaceSSH_config_mode n config_command pattern re_flags s)"
  shows "trace s' = trace s @ new_events s s'
       \<and> RETURN s' = RETURN s \<and> base_prompt s' = base_prompt s
       \<and> sent_timing (new_events s s')
            \<in> {[], [default_to ''conf t'' config_command],
                [default_to ''conf t'' config_command, ''YES'']}
       \<and> (\<forall>ev \<in> set (new_events s s'). \<not> is_save_config ev)
       \<and> (\<forall>out. fst (EndaceSSH_config_mode n config_command pattern re_flags s) = Inr out \<longrightarrow>
             new_events s s' \<noteq> []
             \<and> last (new_events s s') = Super_check_config_mode ''(config) #'' '''' (Inr True))
       \<and> (\<exists>r rest. new_events s s' = Super_check_config_mode ''(config) #'' '''' r # rest)"
proof -
  let ?chk = "impl_check_config_mode n ''(config) #'' ''''"
  let ?cc = "case config_command of None \<Rightarrow> ''conf t'' | Some v \<Rightarrow> v"
  obtain r1 d1 where c1: "?chk (dev s) = (r1, d1)" by fastforce
  obtain r2 d2 where s1: "impl_send_command_timing n ?cc False False d1 = (r2, d2)" by fastforce
  obtain r3 d3 where s2: "impl_send_command_timing n ''YES'' False False d2 = (r3, d3)" by fastforce
  obtain r4 d4 where c2: "?chk d3 = (r4, d4)" by fastforce
  obtain r5 d5 where c3: "?chk d2 = (r5, d5)" by fastforce
  show ?thesis
  proof (cases r1)
    case (Inl e)
    with c1 show ?thesis unfolding s'_def by (simp add: config_mode_defs)
  next
    case b: (Inr b)
    show ?thesis
    proof (cases b)
      case True
      with b c1 show ?thesis unfolding s'_def by (simp add: config_mode_defs)
    next
      case nb: False
      show ?thesis
      proof (cases r2)
        case (Inl e)
        with nb b c1 s1 show ?thesis unfolding s'_def by (simp add: config_mode_defs)
      next
        case o: (Inr out)
        show ?thesis
        proof (cases out)
          case Structured
          with o nb b c1 s1 show ?thesis unfolding s'_def by (simp add: config_mode_defs)
        next
          case o1: (Str o1)
          show ?thesis
          proof (cases "sublist ''to enter configuration mode anyway'' o1")
            case w: True
            show ?thesis
            proof (cases r3)
              case (Inl e)
              with w o1 o nb b c1 s1 s2 show ?thesis unfolding s'_def
                by (simp add: config_mode_defs)
            next
              case y: (Inr out2)
              show ?thesis
              proof (cases out2)
                case Structured
                with y w o1 o nb b c1 s1 s2 show ?thesis unfolding s'_def
                  by (simp add: config_mode_defs)
              next
                case o2: (Str o2)
                show ?thesis
                proof (cases r4)
                  case (Inl e)
                  with o2 y w o1 o nb b c1 s1 s2 c2 show ?thesis unfolding s'_def
                    by (simp add: config_mode_defs)
                next
                  case (Inr b4)
                  with o2 y w o1 o nb b c1 s1 s2 c2 show ?thesis unfolding s'_def
                    by (cases b4) (simp_all add: config_mode_defs)
                qed
              qed
            qed
          next
            case nw: False
            show ?thesis
            proof (cases r5)
              case (Inl e)
              with nw o1 o nb b c1 s1 c3 show ?thesis unfolding s'_def
                by (simp add: config_mode_defs)
            next
              case (Inr b5)
              with nw o1 o nb b c1 s1 c3 show ?thesis unfolding s'_def
                by (cases b5) (simp_all add: config_mode_defs)
            qed
          qed
        qed
      qed
    qed
  qed
qed

lemma EndaceSSH_config_mode_warned:
  assumes c1: "impl_check_config_mode n ''(config) #'' '''' (dev s) = (Inr False, d1)"
    and s1: "impl_send_command_timing n (default_to ''conf t'' config_command) False False d1
               = (Inr (Str o1), d2)"
    and warn: "sublist ''to enter configuration mode anyway'' o1"
    and s2: "impl_send_command_timing n ''YES'' False False d2 = (Inr (Str o2), d3)"
    and c2: "impl_check_config_mode n ''(config) #'' '''' d3 = (Inr c, d4)"
  shows "EndaceSSH_config_mode n config_command pattern re_flags s =
           ((if c then Inr (o1 @ o2) else Inl (ValueError ''Failed to enter configuration mode'')),
            s\<lparr>trace := trace s @
                 [Super_check_config_mode ''(config) #'' '''' (Inr False),
                  Send_command_timing (default_to ''conf t'' config_command) False False (Inr (Str o1)),
                  Send_command_timing ''YES'' False False (Inr (Str o2)),
                  Super_check_config_mode ''(config) #'' '''' (Inr c)],
              dev := d4\<rparr>)"
  using assms
  by (simp add: EndaceSSH_config_mode_def EndaceSSH_check_config_mode_def run_defs default_to_def)

text \<open>
  Claim C2, as amended.  When the first check says that the session is not in
  configuration mode and the answer to the configuration command holds
  \<^verbatim>\<open>to enter configuration mode anyway\<close>, the method sends \<^verbatim>\<open>YES\<close> once and
  checks again.  If the second check succeeds it returns the two answers, one after
  the other; if not it raises \<^verbatim>\<open>ValueError\<close> with the fixed message
  \<^verbatim>\<open>Failed to enter configuration mode\<close>, and the answers are not part of the
  exception.  In every call, whatever the device does, the method sends nothing, or the
  configuration command, or the configuration command and then one \<^verbatim>\<open>YES\<close>.
\<close>

theorem EndaceSSH_config_mode_confirmation:
  assumes c1: "impl_check_config_mode n ''(config) #'' '''' (dev s) = (Inr False, d1)"
    and s1: "impl_send_command_timing n (default_to ''conf t'' config_command) False False d1
               = (Inr (Str o1), d2)"
    and warn: "sublist ''to enter configuration mode anyway'' o1"
    and s2: "impl_send_command_timing n ''YES'' False False d2 = (Inr (Str o2), d3)"
    and c2: "impl_check_config_mode n ''(config) #'' '''' d3 = (Inr c, d4)"
  shows "EndaceSSH_config_mode n config_command pattern re_flags s =
           ((if c then Inr (o1 @ o2) else Inl (ValueError ''Failed to enter configuration mode'')),
            s\<lparr>trace := trace s @
                 [Super_check_config_mode ''(config) #'' '''' (Inr False),
                  Send_command_timing (default_to ''conf t'' config_command) False False (Inr (Str o1)),
                  Send_command_timing ''YES'' False False (Inr (Str o2)),
                  Super_check_config_mode ''(config) #'' '''' (Inr c)],
              dev := d4\<rparr>)
         \<and> sent_timing (new_events t (snd (EndaceSSH_config_mode m config_command' pattern' re_flags' t)))
             \<in> {[], [default_to ''conf t'' config_command'],
                 [default_to ''conf t'' config_command', ''YES'']}"
  using EndaceSSH_config_mode_warned [OF c1 s1 warn s2 c2, of pattern re_flags]
    EndaceSSH_config_mode_trace [where n = m and s = t and config_command = config_command' and pattern = pattern' and re_flags = re_flags']
  by blast

theorem EndaceSSH_config_mode_confirmation_witness:
  "impl_check_config_mode endace_device ''(config) #'' '''' (dev (endace_session (False, True, True)))
     = (Inr False, (False, True, True))
   \<and> impl_send_command_timing endace_device (default_to ''conf t'' None) False False (False, True, True)
     = (Inr (Str ''Type YES to enter configuration mode anyway: ''), (False, True, True))
   \<and> sublist ''to enter configuration mode anyway'' ''Type YES to enter configuration mode anyway: ''
   \<and> impl_send_command_timing endace_device ''YES'' False False (False, True, True)
     = (Inr (Str ''(config) # ''), (True, True, True))
   \<and> impl_check_config_mode endace_device ''(config) #'' '''' (True, True, True)
     = (Inr True, (True, True, True))
   \<and> EndaceSSH_config_mode endace_device None None None (endace_session (False, True, True))
     = (Inr ''Type YES to enter configuration mode anyway: (config) # '',
        \<lparr>RETURN = [LF], base_prompt = ''dag'',
         trace = [Super_check_config_mode ''(config) #'' '''' (Inr False),
                  Send_command_timing ''conf t'' False False
                    (Inr (Str ''Type YES to enter configuration mode anyway: '')),
                  Send_command_timing ''YES'' False False (Inr (Str ''(config) # '')),
                  Super_check_config_mode ''(config) #'' '''' (Inr True)],
         dev = (True, True, True)\<rparr>)"
proof -
  have c1: "impl_check_config_mode endace_device ''(config) #'' '''' (dev (endace_session (False, True, True)))
     = (Inr False, (False, True, True))"
    by (simp add: endace_device_def endace_session_def)
  have s1: "impl_send_command_timing endace_device (default_to ''conf t'' None) False False (False, True, True)
     = (Inr (Str ''Type YES to enter configuration mode anyway: ''), (False, True, True))"
    by (simp add: endace_device_def default_to_def)
  have w: "sublist ''to enter configuration mode anyway'' ''Type YES to enter configuration mode anyway: ''"
    by (simp add: sublist_Cons_right)
  have s2: "impl_send_command_timing endace_device ''YES'' False False (False, True, True)
     = (Inr (Str ''(config) # ''), (True, True, True))"
    by (simp add: endace_device_def)
  have c2: "impl_check_config_mode endace_device ''(config) #'' '''' (True, True, True)
     = (Inr True, (True, True, True))"
    by (simp add: endace_device_def)
  note t = EndaceSSH_config_mode_confirmation [OF c1 s1 w s2 c2,
      where pattern = None and re_flags = None and m = endace_device
        and t = "endace_session (False, True, True)" and config_command' = None
        and pattern' = None and re_flags' = None]
  from t [THEN conjunct1]
  have "EndaceSSH_config_mode endace_device None None None (endace_session (False, True, True))
     = (Inr ''Type YES to enter configuration mode anyway: (config) # '',
        \<lparr>RETURN = [LF], base_prompt = ''dag'',
         trace = [Super_check_config_mode ''(config) #'' '''' (Inr False),
                  Send_command_timing ''conf t'' False False
                    (Inr (Str ''Type YES to enter configuration mode anyway: '')),
                  Send_command_timing ''YES'' False False (Inr (Str ''(config) # '')),
                  Super_check_config_mode ''(config) #'' '''' (Inr True)],
         dev = (True, True, True)\<rparr>)"
    by (simp add: endace_session_def default_to_def)
  with c1 s1 w s2 c2 show ?thesis by (intro conjI)
qed

text \<open>
  Claim C2 as it was stated fails: on a device that warns and does not accept the
  confirmation, the exception is a \<^verbatim>\<open>ValueError\<close> whose message is the fixed
  text, and the accumulated output is not in it.
\<close>

theorem EndaceSSH_config_mode_confirmation_counterexample:
  "EndaceSSH_config_mode endace_device None None None (endace_session (False, True, False))
     = (Inl (ValueError ''Failed to enter configuration mode''),
        \<lparr>RETURN = [LF], base_prompt = ''dag'',
         trace = [Super_check_config_mode ''(config) #'' '''' (Inr False),
                  Send_command_timing ''conf t'' False False
                    (Inr (Str ''Type YES to enter configuration mode anyway: '')),
                  Send_command_timing ''YES'' False False (Inr (Str ''# '')),
                  Super_check_config_mode ''(config) #'' '''' (Inr False)],
         dev = (False, True, False)\<rparr>)
   \<and> \<not> sublist ''Type YES to enter configuration mode anyway: # '' ''Failed to enter configuration mode''"
proof -
  have w: "sublist ''to enter configuration mode anyway'' ''Type YES to enter configuration mode anyway: ''"
    by (simp add: sublist_Cons_right)
  have "\<not> sublist ''Type YES to enter configuration mode anyway: # '' ''Failed to enter configuration mode''"
    by (simp add: sublist_Cons_right)
  moreover have "EndaceSSH_config_mode endace_device None None None (endace_session (False, True, False))
     = (Inl (ValueError ''Failed to enter configuration mode''),
        \<lparr>RETURN = [LF], base_prompt = ''dag'',
         trace = [Super_check_config_mode ''(config) #'' '''' (Inr False),
                  Send_command_timing ''conf t'' False False
                    (Inr (Str ''Type YES to enter configuration mode anyway: '')),
                  Send_command_timing ''YES'' False False (Inr (Str ''# '')),
                  Super_check_config_mode ''(config) #'' '''' (Inr False)],
         dev = (False, True, False)\<rparr>)"
    using w
    by (simp add: EndaceSSH_config_mode_def EndaceSSH_check_config_mode_def run_defs
        default_to_def endace_device_def endace_session_def)
  ultimately show ?thesis by (intro conjI)
qed

text \<open>
  Claim C5.  When the check says that the session is in configuration mode, the method
  returns the empty string and does nothing but this one check: it sends neither the
  configuration command nor a confirmation, and the state behind the base classes is
  the one the check has left.
\<close>

theorem EndaceSSH_config_mode_idempotent:
  assumes c: "impl_check_config_mode n ''(config) #'' '''' (dev s) = (Inr True, d1)"
  shows "EndaceSSH_config_mode n config_command pattern re_flags s =
           (Inr '''', s\<lparr>trace := trace s @ [Super_check_config_mode ''(config) #'' '''' (Inr True)],
                        dev := d1\<rparr>)
         \<and> sent_timing (new_events s (snd (EndaceSSH_config_mode n config_command pattern re_flags s)))
             = []"
  using c by (simp add: config_mode_defs)

theorem EndaceSSH_config_mode_idempotent_witness:
  "impl_check_config_mode endace_device ''(config) #'' '''' (dev (endace_session (True, False, False)))
     = (Inr True, (True, False, False))
   \<and> EndaceSSH_config_mode endace_device None None None (endace_session (True, False, False))
     = (Inr '''',
        \<lparr>RETURN = [LF], base_prompt = ''dag'',
         trace = [Super_check_config_mode ''(config) #'' '''' (Inr True)],
         dev = (True, False, False)\<rparr>)"
proof -
  have c: "impl_check_config_mode endace_device ''(config) #'' '''' (dev (endace_session (True, False, False)))
     = (Inr True, (True, False, False))"
    by (simp add: endace_device_def endace_session_def)
  from EndaceSSH_config_mode_idempotent [OF c, of None None None, THEN conjunct1]
  have "EndaceSSH_config_mode endace_device None None None (endace_session (True, False, False))
     = (Inr '''',
        \<lparr>RETURN = [LF], base_prompt = ''dag'',
         trace = [Super_check_config_mode ''(config) #'' '''' (Inr True)],
         dev = (True, False, False)\<rparr>)"
    by (simp add: endace_session_def)
  with c show ?thesis by (intro conjI)
qed

section \<open>EndaceSSH.save\_config\<close>

text \<open>
  Claim C10.  The first call of the method is \<^verbatim>\<open>enable()\<close>, with the defaults of
  this driver; if it raises, the method raises the same and calls nothing else.  If it
  returns, the method calls \<^verbatim>\<open>config_mode()\<close> with its defaults on the state
  reached, which begins with a check for configuration mode; if that raises, the method
  raises the same and does not save.  If \<^verbatim>\<open>config_mode()\<close> returns, the method
  hands the command (by default \<^verbatim>\<open>configuration write\<close>) and the other arguments to
  the \<^verbatim>\<open>save_config\<close> of the base class on the state reached, and returns or
  raises what that does.  So the save is called at most once, as the last call, after
  \<^verbatim>\<open>enable()\<close> has returned and directly after a check that has found the session
  in configuration mode.
\<close>

theorem EndaceSSH_save_config_order:
  fixes n :: "'d netmiko" and s :: "'d session" and cmd confirm confirm_response
  defines "res \<equiv> EndaceSSH_save_config n cmd confirm confirm_response s"
  defines "evs \<equiv> new_events s (snd res)"
  shows "(\<exists>r rest. evs = Super_enable ''enable'' '''' None re_IGNORECASE r # rest)
       \<and> (\<forall>ev \<in> set evs. is_save_config ev \<longrightarrow>
            (\<exists>x pre.
               evs = Super_enable ''enable'' '''' None re_IGNORECASE (Inr x) # pre @
                       [Super_check_config_mode ''(config) #'' '''' (Inr True),
                        Super_save_config (default_to ''configuration write'' cmd)
                          (default_to False confirm) (default_to '''' confirm_response) (fst res)]
               \<and> (\<forall>ev' \<in> set pre. \<not> is_save_config ev')))
       \<and> (\<forall>e s0. EndaceSSH_enable n None None None None s = (Inl e, s0) \<longrightarrow>
            res = (Inl e, s0)
            \<and> evs = [Super_enable ''enable'' '''' None re_IGNORECASE (Inl e)])
       \<and> (\<forall>x s0. EndaceSSH_enable n None None None None s = (Inr x, s0) \<longrightarrow>
            (\<exists>r rest. new_events s0 (snd (EndaceSSH_config_mode n None None None s0))
                        = Super_check_config_mode ''(config) #'' '''' r # rest)
            \<and> (\<forall>e s1. EndaceSSH_config_mode n None None None s0 = (Inl e, s1) \<longrightarrow>
                  res = (Inl e, s1)
                  \<and> evs = Super_enable ''enable'' '''' None re_IGNORECASE (Inr x) # new_events s0 s1)
            \<and> (\<forall>out s1. EndaceSSH_config_mode n None None None s0 = (Inr out, s1) \<longrightarrow>
                  res = super_save_config n (default_to ''configuration write'' cmd)
                          (default_to False confirm) (default_to '''' confirm_response) s1
                  \<and> evs = Super_enable ''enable'' '''' None re_IGNORECASE (Inr x) # new_events s0 s1 @
                       [Super_save_config (default_to ''configuration write'' cmd)
                          (default_to False confirm) (default_to '''' confirm_response) (fst res)]))"
proof -
  let ?en = "Super_enable ''enable'' '''' None re_IGNORECASE"
  let ?C = "EndaceSSH_config_mode n None None None"
  let ?cmd = "default_to ''configuration write'' cmd"
  let ?cf = "default_to False confirm"
  let ?cr = "default_to '''' confirm_response"
  obtain r0 d0 where e: "impl_enable n ''enable'' '''' None re_IGNORECASE (dev s) = (r0, d0)"
    by fastforce
  define s0 where "s0 = s\<lparr>trace := trace s @ [?en r0], dev := d0\<rparr>"
  have E: "EndaceSSH_enable n None None None None s = (r0, s0)"
    using e by (simp add: EndaceSSH_enable_def run_defs default_to_def s0_def)
  show ?thesis
  proof (cases r0)
    case (Inl ex)
    with E have r: "res = (Inl ex, s0)"
      by (simp add: res_def EndaceSSH_save_config_def bind_exn_def Let_def)
    then have ev: "evs = [?en (Inl ex)]"
      by (simp add: evs_def new_events_def s0_def Inl)
    from r ev E Inl show ?thesis by simp
  next
    case x: (Inr x)
    obtain rc s1 where C: "?C s0 = (rc, s1)" by fastforce
    note tr = EndaceSSH_config_mode_trace [where n = n and s = s0 and config_command = None
        and pattern = None and re_flags = None, unfolded C snd_conv fst_conv]
    define cs where "cs = new_events s0 s1"
    note tr = tr [folded cs_def]
    from tr have t1: "trace s1 = trace s @ ?en (Inr x) # cs"
      by (simp add: s0_def x)
    from tr have nosave: "\<forall>ev \<in> set cs. \<not> is_save_config ev" by blast
    from tr have first: "\<exists>r rest. cs = Super_check_config_mode ''(config) #'' '''' r # rest"
      by blast
    show ?thesis
    proof (cases rc)
      case (Inl ex)
      with E C x have r: "res = (Inl ex, s1)"
        by (simp add: res_def EndaceSSH_save_config_def bind_exn_def Let_def)
      then have ev: "evs = ?en (Inr x) # cs"
        by (simp add: evs_def new_events_def t1)
      have safety: "\<forall>ev \<in> set evs. \<not> is_save_config ev"
        using ev nosave by simp
      from safety ev r first show ?thesis
        unfolding E x cs_def by (simp add: C Inl)
    next
      case (Inr out)
      with tr have ne: "cs \<noteq> []"
        and la: "last cs = Super_check_config_mode ''(config) #'' '''' (Inr True)"
        by auto
      obtain r d2 where sv: "impl_save_config n ?cmd ?cf ?cr (dev s1) = (r, d2)" by fastforce
      have sup: "super_save_config n ?cmd ?cf ?cr s1
                   = (r, s1\<lparr>trace := trace s1 @ [Super_save_config ?cmd ?cf ?cr r], dev := d2\<rparr>)"
        using sv by (simp add: run_defs)
      from E C x Inr
      have res': "res = super_save_config n ?cmd ?cf ?cr s1"
        by (simp add: res_def EndaceSSH_save_config_def bind_exn_def Let_def)
      with sup
      have res: "res = (r, s1\<lparr>trace := trace s1 @ [Super_save_config ?cmd ?cf ?cr r], dev := d2\<rparr>)"
        by simp
      then have ev0: "evs = ?en (Inr x) # cs @ [Super_save_config ?cmd ?cf ?cr (fst res)]"
        by (simp add: evs_def new_events_def t1)
      have "cs = butlast cs @ [Super_check_config_mode ''(config) #'' '''' (Inr True)]"
        using ne la by (metis append_butlast_last_id)
      with ev0 have ev: "evs = ?en (Inr x) # butlast cs @
          [Super_check_config_mode ''(config) #'' '''' (Inr True), Super_save_config ?cmd ?cf ?cr (fst res)]"
        by (metis append_Cons append_Nil append_assoc)
      have nb: "\<forall>ev' \<in> set (butlast cs). \<not> is_save_config ev'"
        using nosave by (meson in_set_butlastD)
      have c1: "\<exists>r rest. evs = ?en r # rest" using ev0 by blast
      have c2: "\<forall>ev \<in> set evs. is_save_config ev \<longrightarrow>
            (\<exists>x pre.
               evs = ?en (Inr x) # pre @
                       [Super_check_config_mode ''(config) #'' '''' (Inr True),
                        Super_save_config ?cmd ?cf ?cr (fst res)]
               \<and> (\<forall>ev' \<in> set pre. \<not> is_save_config ev'))"
        using ev nb by blast
      have c3: "\<forall>e s0. EndaceSSH_enable n None None None None s = (Inl e, s0) \<longrightarrow>
            res = (Inl e, s0) \<and> evs = [?en (Inl e)]"
        unfolding E x by simp
      have c4: "\<forall>x s0. EndaceSSH_enable n None None None None s = (Inr x, s0) \<longrightarrow>
            (\<exists>r rest. new_events s0 (snd (?C s0))
                        = Super_check_config_mode ''(config) #'' '''' r # rest)
            \<and> (\<forall>e s1. ?C s0 = (Inl e, s1) \<longrightarrow>
                  res = (Inl e, s1) \<and> evs = ?en (Inr x) # new_events s0 s1)
            \<and> (\<forall>out s1. ?C s0 = (Inr out, s1) \<longrightarrow>
                  res = super_save_config n ?cmd ?cf ?cr s1
                  \<and> evs = ?en (Inr x) # new_events s0 s1 @
                       [Super_save_config ?cmd ?cf ?cr (fst res)])"
        using first res' ev0 unfolding E x cs_def by (simp add: C Inr)
      from c1 c2 c3 c4 show ?thesis by (intro conjI)
    qed
  qed
qed

theorem EndaceSSH_save_config_order_witness:
  "Super_save_config ''configuration write'' False '''' (Inr ''configuration write'')
     \<in> set (new_events (endace_session (False, True, True))
              (snd (EndaceSSH_save_config endace_device None None None (endace_session (False, True, True)))))
   \<and> is_save_config (Super_save_config ''configuration write'' False '''' (Inr ''configuration write''))
   \<and> (\<exists>x pre.
        new_events (endace_session (False, True, True))
          (snd (EndaceSSH_save_config endace_device None None None (endace_session (False, True, True))))
        = Super_enable ''enable'' '''' None re_IGNORECASE (Inr x) # pre @
            [Super_check_config_mode ''(config) #'' '''' (Inr True),
             Super_save_config ''configuration write'' False '''' (Inr ''configuration write'')])
   \<and> EndaceSSH_enable endace_device None None None None (endace_session (True, False, False))
       = (Inr ''# '',
          \<lparr>RETURN = [LF], base_prompt = ''dag'',
           trace = [Super_enable ''enable'' '''' None re_IGNORECASE (Inr ''# '')],
           dev = (True, False, False)\<rparr>)
   \<and> EndaceSSH_config_mode endace_device None None None
         \<lparr>RETURN = [LF], base_prompt = ''dag'',
          trace = [Super_enable ''enable'' '''' None re_IGNORECASE (Inr ''# '')],
          dev = (True, False, False)\<rparr>
       = (Inr '''',
          \<lparr>RETURN = [LF], base_prompt = ''dag'',
           trace = [Super_enable ''enable'' '''' None re_IGNORECASE (Inr ''# ''),
                    Super_check_config_mode ''(config) #'' '''' (Inr True)],
           dev = (True, False, False)\<rparr>)
   \<and> EndaceSSH_save_config endace_device None None None (endace_session (True, False, False))
       = (Inr ''configuration write'',
          \<lparr>RETURN = [LF], base_prompt = ''dag'',
           trace = [Super_enable ''enable'' '''' None re_IGNORECASE (Inr ''# ''),
                    Super_check_config_mode ''(config) #'' '''' (Inr True),
                    Super_save_config ''configuration write'' False '''' (Inr ''configuration write'')],
           dev = (True, False, False)\<rparr>)"
proof -
  let ?s = "endace_session (False, True, True)"
  let ?res = "EndaceSSH_save_config endace_device None None None ?s"
  have w: "sublist ''to enter configuration mode anyway'' ''Type YES to enter configuration mode anyway: ''"
    by (simp add: sublist_Cons_right)
  have r: "?res = (Inr ''configuration write'',
      \<lparr>RETURN = [LF], base_prompt = ''dag'',
       trace = [Super_enable ''enable'' '''' None re_IGNORECASE (Inr ''# ''),
                Super_check_config_mode ''(config) #'' '''' (Inr False),
                Send_command_timing ''conf t'' False False
                  (Inr (Str ''Type YES to enter configuration mode anyway: '')),
                Send_command_timing ''YES'' False False (Inr (Str ''(config) # '')),
                Super_check_config_mode ''(config) #'' '''' (Inr True),
                Super_save_config ''configuration write'' False '''' (Inr ''configuration write'')],
       dev = (True, True, True)\<rparr>)"
    using w
    by (simp add: EndaceSSH_save_config_def EndaceSSH_enable_def EndaceSSH_config_mode_def
        EndaceSSH_check_config_mode_def run_defs default_to_def endace_device_def endace_session_def
        Let_def)
  have m: "Super_save_config ''configuration write'' False '''' (Inr ''configuration write'')
     \<in> set (new_events ?s (snd ?res))"
    unfolding r by (simp add: new_events_def endace_session_def)
  have i: "is_save_config (Super_save_config ''configuration write'' False '''' (Inr ''configuration write''))"
    by simp
  from EndaceSSH_save_config_order [of ?s endace_device None None None] m i
  have "\<exists>x pre. new_events ?s (snd ?res)
        = Super_enable ''enable'' '''' None re_IGNORECASE (Inr x) # pre @
            [Super_check_config_mode ''(config) #'' '''' (Inr True),
             Super_save_config (default_to ''configuration write'' None) (default_to False None)
               (default_to '''' None) (fst ?res)]"
    by blast
  then have a: "\<exists>x pre. new_events ?s (snd ?res)
        = Super_enable ''enable'' '''' None re_IGNORECASE (Inr x) # pre @
            [Super_check_config_mode ''(config) #'' '''' (Inr True),
             Super_save_config ''configuration write'' False '''' (Inr ''configuration write'')]"
    by (simp add: default_to_def r)
  let ?t = "endace_session (True, False, False)"
  let ?ta = "\<lparr>RETURN = [LF], base_prompt = ''dag'',
          trace = [Super_enable ''enable'' '''' None re_IGNORECASE (Inr ''# '')],
          dev = (True, False, False)\<rparr>"
  let ?tb = "\<lparr>RETURN = [LF], base_prompt = ''dag'',
           trace = [Super_enable ''enable'' '''' None re_IGNORECASE (Inr ''# ''),
                    Super_check_config_mode ''(config) #'' '''' (Inr True)],
           dev = (True, False, False)\<rparr>"
  have E: "EndaceSSH_enable endace_device None None None None ?t = (Inr ''# '', ?ta)"
    by (simp add: EndaceSSH_enable_def run_defs default_to_def endace_device_def endace_session_def)
  have C: "EndaceSSH_config_mode endace_device None None None ?ta = (Inr '''', ?tb)"
    by (simp add: EndaceSSH_config_mode_def EndaceSSH_check_config_mode_def run_defs default_to_def
        endace_device_def)
  from EndaceSSH_save_config_order [of ?t endace_device None None None] E C
  have "EndaceSSH_save_config endace_device None None None ?t
          = super_save_config endace_device (default_to ''configuration write'' None)
              (default_to False None) (default_to '''' None) ?tb"
    by blast
  then have b: "EndaceSSH_save_config endace_device None None None ?t
       = (Inr ''configuration write'',
          \<lparr>RETURN = [LF], base_prompt = ''dag'',
           trace = [Super_enable ''enable'' '''' None re_IGNORECASE (Inr ''# ''),
                    Super_check_config_mode ''(config) #'' '''' (Inr True),
                    Super_save_config ''configuration write'' False '''' (Inr ''configuration write'')],
           dev = (True, False, False)\<rparr>)"
    by (simp add: run_defs default_to_def endace_device_def)
  from m i a E C b show ?thesis by (intro conjI)
qed

end
